theory Spec2Isabelle
  imports Complex_Main
begin

section \<open>JavaScript values and the module instance\<close>

text \<open>
  The actions of the Galaxy module are callbacks that read and write fields of the module
  instance \<open>self\<close> and call its methods. A JavaScript number is modelled as a real
  (\<open>Num\<close>) or as \<open>NaN\<close>, which is also what \<open>Number(...)\<close> gives for an option that is
  not numeric. Arithmetic on reals is exact: the rounding of IEEE doubles and the two
  infinities are not modelled. The module instance always exists, so the guard
  \<open>if (!self) return\<close> that opens most callbacks is left out; which of its methods exist
  is part of the state, since the callbacks test for them.
\<close>

datatype jsnum = Num real | NaN

fun js_add :: "jsnum \<Rightarrow> jsnum \<Rightarrow> jsnum" where
  "js_add (Num a) (Num b) = Num (a + b)"
| "js_add _ _ = NaN"

fun js_mul :: "jsnum \<Rightarrow> jsnum \<Rightarrow> jsnum" where
  "js_mul (Num a) (Num b) = Num (a * b)"
| "js_mul _ _ = NaN"

text \<open>\<open>Math.max(lo, Math.min(hi, v))\<close>: \<open>NaN\<close> goes through both.\<close>

fun js_clamp :: "real \<Rightarrow> real \<Rightarrow> jsnum \<Rightarrow> jsnum" where
  "js_clamp lo hi (Num v) = Num (max lo (min hi v))"
| "js_clamp lo hi NaN = NaN"

text \<open>\<open>Number(x) || d\<close>: \<open>NaN\<close> and 0 are falsy.\<close>

fun or_default :: "jsnum \<Rightarrow> real \<Rightarrow> real" where
  "or_default (Num v) d = (if v = 0 then d else v)"
| "or_default NaN d = d"

text \<open>\<open>Number.isFinite(x) ? x : d\<close>.\<close>

fun finite_or :: "jsnum \<Rightarrow> real \<Rightarrow> real" where
  "finite_or (Num v) d = v"
| "finite_or NaN d = d"

text \<open>\<open>x >= 0 ? 1 : -1\<close>: a comparison with \<open>NaN\<close> is false.\<close>

fun sign_of :: "jsnum \<Rightarrow> real" where
  "sign_of (Num v) = (if v \<ge> 0 then 1 else -1)"
| "sign_of NaN = -1"

definition Math_round :: "real \<Rightarrow> int" where
  "Math_round x = \<lfloor>x + 1 / 2\<rfloor>"

definition Math_ceil :: "real \<Rightarrow> int" where
  "Math_ceil x = \<lceil>x\<rceil>"

definition clamp :: "real \<Rightarrow> real \<Rightarrow> real \<Rightarrow> real" where
  "clamp v lo hi = max lo (min hi v)"

definition roundTo01 :: "real \<Rightarrow> real" where
  "roundTo01 v = real_of_int (Math_round (v / (1 / 100))) * (1 / 100)"

datatype domain = Input | Output

datatype self_method =
    M_cmdSendLine | M_log | M_setMute | M_toggleMute | M_checkFeedbacks
  | M_setVariableValues
  | M_setInputDelayMs | M_applyInputDelay | M_setOutputDelayMs | M_applyOutputDelay
  | M_applyMatrixDelayType | M_applyMatrixDelay | M_applyMatrixDelayBypass
  | M_getPrevGain domain | M_startGainFade domain | M_setGain domain | M_subWrite
  | M_beginPrevCaptureWindow | M_rememberPrevGain domain
  | M_applyUShaping domain | M_applyInputEQBypass
  | M_updateUShapingCurrentValues domain

text \<open>A command line \<open>/a/b/3/field=value\<close>: the path segments and the value written.\<close>

datatype seg = Lit string | Idx nat

datatype cval =
    VNum jsnum | VInt int | VBool bool | VQuoted string | VQuotedBool bool | VUndefined
  | VFixed nat jsnum | VRounded jsnum

datatype curve = Linear | Log

datatype level = Warn | Info | Debug

text \<open>
  Every call a callback makes on \<open>self\<close> is recorded, in order, in the trace. Log
  messages keep their fixed text; interpolated parts are left out. \<open>VFixed n v\<close> stands for
  the string \<open>v.toFixed(n)\<close> and \<open>VRounded v\<close> for \<open>Math.round(v).toString()\<close>.
\<close>

datatype event =
    CmdSendLine "seg list" cval
  | LogMsg level string
  | SetMute domain nat bool
  | ToggleMute domain nat
  | CheckFeedbacks "string list"
  | SetVariableValues "(seg list \<times> cval) list"
  | SetDelayMs domain nat real
  | ApplyDelay domain nat int
  | ApplyMatrixDelayType nat nat jsnum
  | ApplyMatrixDelay nat nat int
  | ApplyMatrixDelayBypass nat nat bool
  | SubWrite "seg list"
  | BeginPrevCaptureWindow domain nat "string option" nat
  | RememberPrevGain domain nat "string option"
  | StartGainFade domain nat jsnum real curve
  | SetGain domain nat jsnum
  | ApplyUShaping domain nat nat string cval
  | ApplyInputEQBypass nat bool
  | UpdateUShapingCurrentValues domain

record accel =
  time :: int
  count :: int

record band =
  gain :: "jsnum option"
  frequency :: "jsnum option"
  slope :: "jsnum option"
  band_bypass :: "bool option"

record eq_channel =
  bypass :: "bool option"

record solo_state =
  soloChannels :: "nat list"
  prevMute :: "nat \<rightharpoonup> bool"

datatype toggle = ToggleA | ToggleB

record knob_control =
  selected :: "nat list option"
  selectedBand :: "nat option"

record self =
  defined :: "self_method set"
  trace :: "event list"
  inMute :: "nat \<rightharpoonup> bool"
  outMute :: "nat \<rightharpoonup> bool"
  inputSoloState :: "solo_state option"
  outputSoloState :: "solo_state option"
  rotaryAccel :: "string \<rightharpoonup> accel"
  rotaryPressState :: "string \<rightharpoonup> bool"
  inputUShaping :: "nat \<rightharpoonup> (nat \<rightharpoonup> band)"
  outputUShaping :: "nat \<rightharpoonup> (nat \<rightharpoonup> band)"
  inputEQ :: "nat \<rightharpoonup> eq_channel"
  inputGainToggle :: "nat \<rightharpoonup> toggle"
  outputGainToggle :: "nat \<rightharpoonup> toggle"
  inputGain :: "nat \<rightharpoonup> jsnum"
  outputGain :: "nat \<rightharpoonup> jsnum"
  prevGainMemory :: "domain \<Rightarrow> nat \<Rightarrow> string option \<Rightarrow> jsnum option"
  ushapingKnobControl :: "knob_control option"
  ushapingKnobControlOutput :: "knob_control option"
  matrixDelay :: "nat \<times> nat \<rightharpoonup> bool"

definition emit :: "event \<Rightarrow> self \<Rightarrow> self" where
  "emit ev s = s\<lparr>trace := trace s @ [ev]\<rparr>"

text \<open>
  \<open>self.m?.(...)\<close> and \<open>if (typeof self.m === 'function') self.m(...)\<close>: the call is made
  when it exists. A call the source makes without such a guard is an \<open>emit\<close>.
\<close>

definition call_if :: "self_method \<Rightarrow> event \<Rightarrow> self \<Rightarrow> self" where
  "call_if m ev s = (if m \<in> defined s then emit ev s else s)"

definition self_log :: "level \<Rightarrow> string \<Rightarrow> self \<Rightarrow> self" where
  "self_log lv msg s = call_if M_log (LogMsg lv msg) s"

text \<open>
  A fresh module instance: every method of the module's main file is present, nothing is
  stored yet.
\<close>

definition fresh :: self where
  "fresh = \<lparr>defined = UNIV, trace = [], inMute = Map.empty, outMute = Map.empty,
     inputSoloState = None, outputSoloState = None, rotaryAccel = Map.empty,
     rotaryPressState = Map.empty,
     inputUShaping = Map.empty, outputUShaping = Map.empty, inputEQ = Map.empty,
     inputGainToggle = Map.empty, outputGainToggle = Map.empty,
     inputGain = Map.empty, outputGain = Map.empty,
     prevGainMemory = (\<lambda>d ch b. None),
     ushapingKnobControl = None, ushapingKnobControlOutput = None,
     matrixDelay = Map.empty\<rparr>"

section \<open>Channel selection\<close>

text \<open>
  Modelled from the spec: \<open>safeGetChannels\<close> (file \<open>actions-helpers.js\<close>, not among the
  sources) is the Channel Set Validator of the specification: from a raw list of tokens
  it keeps the numeric ones in \<open>[1, max]\<close>, without duplicates, in order. A token that is
  not numeric is \<open>None\<close>.
\<close>

fun dedup :: "nat list \<Rightarrow> nat list" where
  "dedup [] = []"
| "dedup (x # xs) = x # dedup (filter (\<lambda>y. y \<noteq> x) xs)"

definition safeGetChannels :: "int option list \<Rightarrow> nat \<Rightarrow> nat list" where
  "safeGetChannels raw mx =
     dedup (map nat (filter (\<lambda>n. 1 \<le> n \<and> n \<le> int mx) (List.map_filter id raw)))"

section \<open>Delay actions\<close>

text \<open>\<open>valueToMs\<close>, written out identically in the input, output and matrix delay actions.\<close>

definition valueToMs :: "jsnum \<Rightarrow> string \<Rightarrow> real" where
  "valueToMs val typeKey =
     (case val of
        NaN \<Rightarrow> 0
      | Num n \<Rightarrow>
          if typeKey = ''1'' then (n * 1000) / 1125
          else if typeKey = ''2'' then (n * 1000) / 343
          else if typeKey = ''3'' then (n / 24) * 1000
          else if typeKey = ''4'' then (n / 25) * 1000
          else if typeKey = ''5'' then (n / 30) * 1000
          else if typeKey = ''6'' then n / 96
          else n)"

text \<open>\<open>String(e.options.type || 'unchanged')\<close>: an absent or empty option reads as unchanged.\<close>

definition typeId_of :: "string \<Rightarrow> string" where
  "typeId_of t = (if t = [] then ''unchanged'' else t)"

definition delay_samples :: "real \<Rightarrow> int" where
  "delay_samples targetMs = Math_round (targetMs * 96)"

text \<open>The body of the per-channel loop of \<open>input_delay_set\<close>.\<close>

definition input_delay_channel :: "string \<Rightarrow> jsnum \<Rightarrow> nat \<Rightarrow> self \<Rightarrow> self" where
  "input_delay_channel typeId valueRaw ch s =
     (if typeId = ''unchanged'' then s
      else
        let msFromValue = valueToMs valueRaw (if typeId = ''unchanged'' then ''0'' else typeId);
            targetMs = roundTo01 (clamp msFromValue 0 500)
        in if M_setInputDelayMs \<in> defined s then emit (SetDelayMs Input ch targetMs) s
           else if M_cmdSendLine \<in> defined s then
             let samples = delay_samples targetMs;
                 s1 = emit (CmdSendLine [Lit ''processing'', Lit ''input'', Idx ch, Lit ''delay''] (VInt samples)) s
             in call_if M_applyInputDelay (ApplyDelay Input ch samples) s1
           else s)"

definition input_delay_set :: "nat \<Rightarrow> int option list \<Rightarrow> string \<Rightarrow> jsnum \<Rightarrow> self \<Rightarrow> self" where
  "input_delay_set NUM_INPUTS chs_opt type_opt value_opt s =
     (let chs = safeGetChannels chs_opt NUM_INPUTS in
      if length chs = 0 then self_log Warn ''No valid input channels selected'' s
      else fold (input_delay_channel (typeId_of type_opt) value_opt) chs s)"

text \<open>The body of the per-channel loop of \<open>output_delay_set\<close>; the range is 0 to 2000 ms.\<close>

definition output_delay_channel :: "string \<Rightarrow> jsnum \<Rightarrow> nat \<Rightarrow> self \<Rightarrow> self" where
  "output_delay_channel typeId valueRaw ch s =
     (if typeId = ''unchanged'' then s
      else
        let msFromValue = valueToMs valueRaw typeId;
            targetMs = roundTo01 (clamp msFromValue 0 2000)
        in if M_setOutputDelayMs \<in> defined s then emit (SetDelayMs Output ch targetMs) s
           else if M_cmdSendLine \<in> defined s then
             let samples = delay_samples targetMs;
                 s1 = emit (CmdSendLine [Lit ''processing'', Lit ''output'', Idx ch, Lit ''delay''] (VInt samples)) s
             in call_if M_applyOutputDelay (ApplyDelay Output ch samples) s1
           else s)"

definition output_delay_set :: "nat \<Rightarrow> int option list \<Rightarrow> string \<Rightarrow> jsnum \<Rightarrow> self \<Rightarrow> self" where
  "output_delay_set NUM_OUTPUTS chs_opt type_opt value_opt s =
     (let chs = safeGetChannels chs_opt NUM_OUTPUTS in
      if length chs = 0 then self_log Warn ''No valid output channels selected'' s
      else fold (output_delay_channel (typeId_of type_opt) value_opt) chs s)"

text \<open>
  \<open>matrix_delay_full\<close>: for every (input, output) pair the delay type, the delay value and
  the bypass are handled in turn. \<open>Number(typeId)\<close> of a unit id is read by \<open>unit_number\<close>.
\<close>

definition unit_number :: "string \<Rightarrow> jsnum" where
  "unit_number t =
     (if t = ''0'' then Num 0 else if t = ''1'' then Num 1 else if t = ''2'' then Num 2
      else if t = ''3'' then Num 3 else if t = ''4'' then Num 4 else if t = ''5'' then Num 5
      else if t = ''6'' then Num 6 else NaN)"

definition matrix_delay_pair :: "string \<Rightarrow> jsnum \<Rightarrow> string \<Rightarrow> nat \<Rightarrow> nat \<Rightarrow> self \<Rightarrow> self" where
  "matrix_delay_pair typeId valueRaw statusMode i o' s =
     (let s1 = (if typeId \<noteq> ''unchanged'' then
                  call_if M_applyMatrixDelayType (ApplyMatrixDelayType i o' (unit_number typeId))
                    (emit (CmdSendLine [Lit ''processing'', Lit ''matrix'', Idx i, Idx o', Lit ''delay_type'']
                             (VQuoted typeId)) s)
                else s);
          s2 = (if typeId \<noteq> ''unchanged'' then
                  let msFromValue = valueToMs valueRaw typeId;
                      targetMs = roundTo01 (clamp msFromValue 0 500);
                      samples = delay_samples targetMs
                  in call_if M_applyMatrixDelay (ApplyMatrixDelay i o' samples)
                       (emit (CmdSendLine [Lit ''processing'', Lit ''matrix'', Idx i, Idx o', Lit ''delay'']
                                (VInt samples)) s1)
                else s1)
      in if statusMode \<noteq> ''unchanged'' then
           let newState = (if statusMode = ''toggle''
                           then \<not> (case matrixDelay s2 (i, o') of None \<Rightarrow> False | Some b \<Rightarrow> b)
                           else statusMode = ''off'')
           in call_if M_applyMatrixDelayBypass (ApplyMatrixDelayBypass i o' newState)
                (emit (CmdSendLine [Lit ''processing'', Lit ''matrix'', Idx i, Idx o', Lit ''delay_bypass'']
                         (VQuotedBool newState)) s2)
         else s2)"

definition matrix_delay_full ::
  "nat \<Rightarrow> int option list \<Rightarrow> int option list \<Rightarrow> string \<Rightarrow> jsnum \<Rightarrow> string \<Rightarrow> self \<Rightarrow> self" where
  "matrix_delay_full NUM_OUTPUTS ins_opt outs_opt type_opt value_opt status_opt s =
     (let inputs = safeGetChannels ins_opt 32;
          outs = safeGetChannels outs_opt NUM_OUTPUTS in
      if length inputs = 0 \<or> length outs = 0 then self_log Warn ''No valid matrix channels selected'' s
      else
        fold (\<lambda>i. fold (matrix_delay_pair (typeId_of type_opt) value_opt (typeId_of status_opt) i) outs)
          inputs s)"

section \<open>Mute and solo\<close>

definition muteOf :: "domain \<Rightarrow> self \<Rightarrow> nat \<rightharpoonup> bool" where
  "muteOf d s = (case d of Input \<Rightarrow> inMute s | Output \<Rightarrow> outMute s)"

text \<open>\<open>!!self?.inMute?.[ch]\<close>: a channel never written reads as not muted.\<close>

definition muted :: "domain \<Rightarrow> self \<Rightarrow> nat \<Rightarrow> bool" where
  "muted d s ch = (case muteOf d s ch of None \<Rightarrow> False | Some b \<Rightarrow> b)"

text \<open>
  Modelled from the spec: \<open>_setMute\<close> and \<open>_toggleMute\<close> are methods of the module's main
  file, not among the sources. Following the Command Dispatcher of the specification, a
  mutation updates the local store and transmits in the same step: the call writes the
  channel's mute flag (the table the solo action reads as \<open>inMute\<close> or \<open>outMute\<close>) and is
  recorded in the trace.
\<close>

definition setMute_effect :: "domain \<Rightarrow> nat \<Rightarrow> bool \<Rightarrow> self \<Rightarrow> self" where
  "setMute_effect d ch v s =
     emit (SetMute d ch v)
       (case d of Input \<Rightarrow> s\<lparr>inMute := (inMute s)(ch \<mapsto> v)\<rparr>
                | Output \<Rightarrow> s\<lparr>outMute := (outMute s)(ch \<mapsto> v)\<rparr>)"

definition toggleMute_effect :: "domain \<Rightarrow> nat \<Rightarrow> self \<Rightarrow> self" where
  "toggleMute_effect d ch s =
     emit (ToggleMute d ch)
       (case d of Input \<Rightarrow> s\<lparr>inMute := (inMute s)(ch \<mapsto> \<not> muted d s ch)\<rparr>
                | Output \<Rightarrow> s\<lparr>outMute := (outMute s)(ch \<mapsto> \<not> muted d s ch)\<rparr>)"

text \<open>\<open>if (typeof self._setMute === 'function') self._setMute(domain, ch, v)\<close>.\<close>

definition setMute :: "domain \<Rightarrow> nat \<Rightarrow> bool \<Rightarrow> self \<Rightarrow> self" where
  "setMute d ch v s = (if M_setMute \<in> defined s then setMute_effect d ch v s else s)"

definition domain_word :: "domain \<Rightarrow> string" where
  "domain_word d = (case d of Input \<Rightarrow> ''input'' | Output \<Rightarrow> ''output'')"

text \<open>
  \<open>input_mute_control\<close> and \<open>output_mute_control\<close> are the same code up to the domain;
  \<open>NUM\<close> is \<open>NUM_INPUTS\<close> or \<open>NUM_OUTPUTS\<close>.
\<close>

definition mute_control_channel :: "domain \<Rightarrow> string \<Rightarrow> nat \<Rightarrow> self \<Rightarrow> self" where
  "mute_control_channel d op ch s =
     (if op = ''on'' \<and> M_setMute \<in> defined s then setMute_effect d ch True s
      else if op = ''off'' \<and> M_setMute \<in> defined s then setMute_effect d ch False s
      else if M_toggleMute \<in> defined s then toggleMute_effect d ch s
      else s)"

definition mute_control :: "domain \<Rightarrow> nat \<Rightarrow> string \<Rightarrow> int option list \<Rightarrow> self \<Rightarrow> self" where
  "mute_control d NUM op chs_opt s =
     (let chs = safeGetChannels chs_opt NUM in
      if length chs = 0 then
        self_log Warn (''No valid '' @ domain_word d @ '' channels selected'') s
      else fold (mute_control_channel d op) chs s)"

definition soloStateOf :: "domain \<Rightarrow> self \<Rightarrow> solo_state option" where
  "soloStateOf d s = (case d of Input \<Rightarrow> inputSoloState s | Output \<Rightarrow> outputSoloState s)"

definition set_soloState :: "domain \<Rightarrow> solo_state option \<Rightarrow> self \<Rightarrow> self" where
  "set_soloState d v s =
     (case d of Input \<Rightarrow> s\<lparr>inputSoloState := v\<rparr> | Output \<Rightarrow> s\<lparr>outputSoloState := v\<rparr>)"

text \<open>The snapshot \<open>snap[ch] = !!self?.inMute?.[ch]\<close> for \<open>ch\<close> from 1 to \<open>NUM\<close>.\<close>

definition mute_snapshot :: "domain \<Rightarrow> nat \<Rightarrow> self \<Rightarrow> nat \<rightharpoonup> bool" where
  "mute_snapshot d NUM s = (\<lambda>ch. if 1 \<le> ch \<and> ch \<le> NUM then Some (muted d s ch) else None)"

text \<open>
  \<open>input_solo\<close> and \<open>output_solo\<close>. The JavaScript \<open>Set\<close> built from the selection is the
  list of its distinct members; \<open>size\<close> is its length and \<open>has\<close> is membership.
\<close>

definition isSameSolo :: "solo_state option \<Rightarrow> nat list \<Rightarrow> bool" where
  "isSameSolo currentSoloState soloSet =
     (case currentSoloState of
        None \<Rightarrow> False
      | Some cur \<Rightarrow> length (soloChannels cur) = length soloSet
                    \<and> list_all (\<lambda>ch. ch \<in> set (soloChannels cur)) soloSet)"

definition apply_solo_channel :: "domain \<Rightarrow> nat list \<Rightarrow> nat \<Rightarrow> self \<Rightarrow> self" where
  "apply_solo_channel d soloSet ch s =
     (if ch \<in> set soloSet then setMute d ch False s else setMute d ch True s)"

definition unsolo_channel :: "domain \<Rightarrow> (nat \<rightharpoonup> bool) \<Rightarrow> nat \<Rightarrow> self \<Rightarrow> self" where
  "unsolo_channel d prev ch s =
     (let shouldMute = (case prev ch of None \<Rightarrow> False | Some b \<Rightarrow> b) in setMute d ch shouldMute s)"

definition solo :: "domain \<Rightarrow> nat \<Rightarrow> string \<Rightarrow> int option list \<Rightarrow> self \<Rightarrow> self" where
  "solo d NUM op chs_opt s =
     (let soloChans = safeGetChannels chs_opt NUM in
      if length soloChans = 0 then
        self_log Warn (''No valid '' @ domain_word d @ '' channels selected for solo'') s
      else
        let soloSet = dedup soloChans;
            currentSoloState = soloStateOf d s;
            shouldApplySolo =
              (if op = ''on'' then True else if op = ''off'' then False
               else \<not> isSameSolo currentSoloState soloSet);
            s' =
              (if shouldApplySolo then
                 let prev = (case currentSoloState of
                               Some cur \<Rightarrow> prevMute cur
                             | None \<Rightarrow> mute_snapshot d NUM s);
                     s1 = fold (apply_solo_channel d soloSet) [1..<NUM + 1] s;
                     s2 = set_soloState d (Some \<lparr>soloChannels = soloSet, prevMute = prev\<rparr>) s1
                 in self_log Info (''Soloed '' @ domain_word d @ '' channels'') s2
               else
                 let prev = (case currentSoloState of
                               Some cur \<Rightarrow> prevMute cur
                             | None \<Rightarrow> Map.empty);
                     s1 = fold (unsolo_channel d prev) [1..<NUM + 1] s;
                     s2 = set_soloState d None s1
                 in self_log Info ''Unsolo - restored previous mute states'' s2)
        in call_if M_checkFeedbacks
             (CheckFeedbacks [domain_word d @ ''_muted'', domain_word d @ ''_soloed'']) s')"

section \<open>Gain\<close>

record gain_options =
  opt_chs :: "int option list"
  opt_target :: string
  opt_gain :: jsnum
  opt_delta :: jsnum
  opt_gain_a :: jsnum
  opt_gain_b :: jsnum
  opt_fadeMs :: jsnum
  opt_curve :: string

definition gainOf :: "domain \<Rightarrow> self \<Rightarrow> nat \<rightharpoonup> jsnum" where
  "gainOf d s = (case d of Input \<Rightarrow> inputGain s | Output \<Rightarrow> outputGain s)"

definition gainToggleOf :: "domain \<Rightarrow> self \<Rightarrow> nat \<rightharpoonup> toggle" where
  "gainToggleOf d s = (case d of Input \<Rightarrow> inputGainToggle s | Output \<Rightarrow> outputGainToggle s)"

definition set_gainToggle :: "domain \<Rightarrow> nat \<Rightarrow> toggle \<Rightarrow> self \<Rightarrow> self" where
  "set_gainToggle d ch v s =
     (case d of Input \<Rightarrow> s\<lparr>inputGainToggle := (inputGainToggle s)(ch \<mapsto> v)\<rparr>
              | Output \<Rightarrow> s\<lparr>outputGainToggle := (outputGainToggle s)(ch \<mapsto> v)\<rparr>)"

text \<open>
  \<open>if (dur > 0 && typeof self._startGainFade === 'function') ... else if (typeof
  self._setGain === 'function') ...\<close>: the two ways a target gain is applied.
\<close>

definition apply_gain :: "domain \<Rightarrow> nat \<Rightarrow> jsnum \<Rightarrow> real \<Rightarrow> curve \<Rightarrow> self \<Rightarrow> self" where
  "apply_gain d ch target dur crv s =
     (if dur > 0 \<and> M_startGainFade d \<in> defined s then emit (StartGainFade d ch target dur crv) s
      else if M_setGain d \<in> defined s then emit (SetGain d ch target) s
      else s)"

definition gain_prelude :: "domain \<Rightarrow> nat \<Rightarrow> string option \<Rightarrow> self \<Rightarrow> self" where
  "gain_prelude d ch btnId s =
     call_if (M_rememberPrevGain d) (RememberPrevGain d ch btnId)
       (call_if M_beginPrevCaptureWindow (BeginPrevCaptureWindow d ch btnId 300)
          (call_if M_subWrite
             (SubWrite [Lit ''processing'', Lit (domain_word d), Idx ch, Lit ''gain'']) s))"

definition gain_last_channel ::
  "domain \<Rightarrow> string option \<Rightarrow> real \<Rightarrow> curve \<Rightarrow> nat \<Rightarrow> self \<Rightarrow> self" where
  "gain_last_channel d btnId dur crv ch s =
     (let prev = (if M_getPrevGain d \<in> defined s then prevGainMemory s d ch btnId else None) in
      case prev of
        None \<Rightarrow> self_log Debug ''no last dB stored'' s
      | Some p \<Rightarrow> apply_gain d ch p dur crv s)"

definition gain_nudge_channel :: "domain \<Rightarrow> string option \<Rightarrow> jsnum \<Rightarrow> nat \<Rightarrow> self \<Rightarrow> self" where
  "gain_nudge_channel d btnId dl ch s =
     (let s1 = gain_prelude d ch btnId s;
          cur = (case gainOf d s1 ch of None \<Rightarrow> NaN | Some v \<Rightarrow> v);
          base = finite_or cur 0;
          target = base + finite_or dl 0
      in apply_gain d ch (Num target) 0 Linear s1)"

definition gain_pair_channel ::
  "domain \<Rightarrow> string option \<Rightarrow> jsnum \<Rightarrow> jsnum \<Rightarrow> real \<Rightarrow> curve \<Rightarrow> nat \<Rightarrow> self \<Rightarrow> self" where
  "gain_pair_channel d btnId gA gB dur crv ch s =
     (let s1 = call_if M_subWrite
                 (SubWrite [Lit ''processing'', Lit (domain_word d), Idx ch, Lit ''gain'']) s;
          lastWasA = (gainToggleOf d s1 ch = Some ToggleA);
          targetGain = (if lastWasA then gB else gA);
          s2 = set_gainToggle d ch (if lastWasA then ToggleB else ToggleA) s1;
          s3 = call_if (M_rememberPrevGain d) (RememberPrevGain d ch btnId)
                 (call_if M_beginPrevCaptureWindow (BeginPrevCaptureWindow d ch btnId 300) s2)
      in apply_gain d ch targetGain dur crv s3)"

definition gain_value_channel ::
  "domain \<Rightarrow> string option \<Rightarrow> jsnum \<Rightarrow> real \<Rightarrow> curve \<Rightarrow> nat \<Rightarrow> self \<Rightarrow> self" where
  "gain_value_channel d btnId g dur crv ch s = apply_gain d ch g dur crv (gain_prelude d ch btnId s)"

text \<open>\<open>input_gain_set\<close> and \<open>output_gain_set\<close>; \<open>btnId\<close> is the control id of the event.\<close>

definition gain_set :: "domain \<Rightarrow> nat \<Rightarrow> gain_options \<Rightarrow> string option \<Rightarrow> self \<Rightarrow> self" where
  "gain_set d NUM opts btnId s =
     (let chs = safeGetChannels (opt_chs opts) NUM in
      if length chs = 0 then
        self_log Warn (''No valid '' @ domain_word d @ '' channels selected'') s
      else
        let mode = (if opt_target opts = ''last'' \<or> opt_target opts = ''prev'' then ''last''
                    else if opt_target opts = ''pair'' then ''pair''
                    else if opt_target opts = ''nudge'' then ''nudge'' else ''value'');
            dur = max 0 (or_default (opt_fadeMs opts) 0);
            crv = (if opt_curve opts = ''log'' then Log else Linear)
        in if mode = ''last'' then fold (gain_last_channel d btnId dur crv) chs s
           else if mode = ''nudge'' then fold (gain_nudge_channel d btnId (opt_delta opts)) chs s
           else if mode = ''pair'' then
             fold (gain_pair_channel d btnId (opt_gain_a opts) (opt_gain_b opts) dur crv) chs s
           else fold (gain_value_channel d btnId (opt_gain opts) dur crv) chs s)"

section \<open>Parametric EQ bypass\<close>

text \<open>
  \<open>input_eq_bypass\<close>. The action has no check for an empty selection and no guard around
  \<open>_cmdSendLine\<close>.
\<close>

definition input_eq_bypass_channel :: "string \<Rightarrow> string \<Rightarrow> nat \<Rightarrow> self \<Rightarrow> self" where
  "input_eq_bypass_channel mode state_opt ch s =
     (let state =
            (if mode = ''toggle'' then
               \<not> (case inputEQ s ch of
                     None \<Rightarrow> False
                   | Some c \<Rightarrow> (case bypass c of None \<Rightarrow> False | Some b \<Rightarrow> b))
             else state_opt = ''true'');
          s1 = emit (CmdSendLine [Lit ''processing'', Lit ''input'', Idx ch, Lit ''eq'', Lit ''bypass'']
                       (VBool state)) s;
          s2 = call_if M_applyInputEQBypass (ApplyInputEQBypass ch state) s1;
          s3 = call_if M_setVariableValues
                 (SetVariableValues [([Lit ''input'', Idx ch, Lit ''eq_bypass''],
                    VQuoted (if state then ''ON'' else ''OFF''))]) s2
      in self_log Info ''Parametric EQ: Input bypass'' s3)"

definition input_eq_bypass :: "nat \<Rightarrow> int option list \<Rightarrow> string \<Rightarrow> string \<Rightarrow> self \<Rightarrow> self" where
  "input_eq_bypass NUM_INPUTS chs_opt mode state_opt s =
     (let chs = safeGetChannels chs_opt NUM_INPUTS in
      fold (input_eq_bypass_channel mode state_opt) chs s)"

section \<open>U-Shaping store and rotary acceleration\<close>

definition ushapingOf :: "domain \<Rightarrow> self \<Rightarrow> nat \<rightharpoonup> (nat \<rightharpoonup> band)" where
  "ushapingOf d s = (case d of Input \<Rightarrow> inputUShaping s | Output \<Rightarrow> outputUShaping s)"

definition set_ushaping :: "domain \<Rightarrow> (nat \<rightharpoonup> (nat \<rightharpoonup> band)) \<Rightarrow> self \<Rightarrow> self" where
  "set_ushaping d m s =
     (case d of Input \<Rightarrow> s\<lparr>inputUShaping := m\<rparr> | Output \<Rightarrow> s\<lparr>outputUShaping := m\<rparr>)"

definition empty_band :: band where
  "empty_band = \<lparr>gain = None, frequency = None, slope = None, band_bypass = None\<rparr>"

text \<open>The band object of a channel, as read through \<open>?.\<close> chains: absent levels read as empty.\<close>

definition band_at :: "(nat \<rightharpoonup> (nat \<rightharpoonup> band)) \<Rightarrow> nat \<Rightarrow> nat \<Rightarrow> band" where
  "band_at m ch b =
     (case m ch of None \<Rightarrow> empty_band
      | Some chm \<Rightarrow> (case chm b of None \<Rightarrow> empty_band | Some x \<Rightarrow> x))"

text \<open>
  \<open>if (!m[ch]) m[ch] = {}; if (!m[ch][b]) m[ch][b] = {}\<close> followed by writes to fields of
  \<open>m[ch][b]\<close>.
\<close>

definition update_band ::
  "nat \<Rightarrow> nat \<Rightarrow> (band \<Rightarrow> band) \<Rightarrow> (nat \<rightharpoonup> (nat \<rightharpoonup> band)) \<Rightarrow> (nat \<rightharpoonup> (nat \<rightharpoonup> band))" where
  "update_band ch b f m =
     (let chm = (case m ch of None \<Rightarrow> Map.empty | Some x \<Rightarrow> x);
          bd = (case chm b of None \<Rightarrow> empty_band | Some x \<Rightarrow> x)
      in m(ch \<mapsto> chm(b \<mapsto> f bd)))"

definition knobControlOf :: "domain \<Rightarrow> self \<Rightarrow> knob_control option" where
  "knobControlOf d s =
     (case d of Input \<Rightarrow> ushapingKnobControl s | Output \<Rightarrow> ushapingKnobControlOutput s)"

text \<open>\<open>self?._ushapingKnobControl?.selectedInputs || [1]\<close> and \<open>...selectedBand || 1\<close>.\<close>

definition knob_chs :: "domain \<Rightarrow> self \<Rightarrow> nat list" where
  "knob_chs d s =
     (case knobControlOf d s of None \<Rightarrow> [1]
      | Some k \<Rightarrow> (case selected k of None \<Rightarrow> [1] | Some xs \<Rightarrow> xs))"

definition knob_band :: "domain \<Rightarrow> self \<Rightarrow> nat" where
  "knob_band d s =
     (case knobControlOf d s of None \<Rightarrow> 1
      | Some k \<Rightarrow> (case selectedBand k of None \<Rightarrow> 1 | Some b \<Rightarrow> if b = 0 then 1 else b))"

text \<open>
  The time-based acceleration block, written out identically in every accelerated knob
  action: \<open>now\<close> is the reading of \<open>Date.now()\<close>, the result is \<open>speedTier\<close>.
\<close>

definition rotary_accel :: "int \<Rightarrow> string \<Rightarrow> self \<Rightarrow> int \<times> self" where
  "rotary_accel now accelKey s =
     (let lastRotation = (case rotaryAccel s accelKey of
                            None \<Rightarrow> \<lparr>time = 0, count = 0\<rparr> | Some r \<Rightarrow> r);
          timeDiff = now - time lastRotation;
          speedTier = (if timeDiff < 100 then min (count lastRotation + 1) 3 else 0)
      in (speedTier, s\<lparr>rotaryAccel := (rotaryAccel s)(accelKey \<mapsto> \<lparr>time = now, count = speedTier\<rparr>)\<rparr>))"

text \<open>\<open>`prefix${e.surfaceId || 'default'}`\<close>.\<close>

definition accel_key :: "string \<Rightarrow> string \<Rightarrow> string" where
  "accel_key prefix surfaceId = prefix @ (if surfaceId = [] then ''default'' else surfaceId)"

text \<open>\<open>tiers[speedTier]\<close>: an index outside the array reads \<open>undefined\<close>.\<close>

definition tier_at :: "'a list \<Rightarrow> int \<Rightarrow> 'a option" where
  "tier_at tiers i = (if 0 \<le> i \<and> i < int (length tiers) then Some (tiers ! nat i) else None)"

definition num_of :: "real option \<Rightarrow> jsnum" where
  "num_of x = (case x of None \<Rightarrow> NaN | Some v \<Rightarrow> Num v)"

definition stored_or :: "jsnum option \<Rightarrow> real \<Rightarrow> jsnum" where
  "stored_or x d = (case x of None \<Rightarrow> Num d | Some v \<Rightarrow> v)"

section \<open>U-Shaping knobs\<close>

definition ushaping_path :: "domain \<Rightarrow> nat \<Rightarrow> nat \<Rightarrow> string \<Rightarrow> seg list" where
  "ushaping_path d ch b fld =
     [Lit ''processing'', Lit (domain_word d), Idx ch, Lit ''ushaping'', Idx b, Lit fld]"

definition ushaping_var :: "domain \<Rightarrow> nat \<Rightarrow> nat \<Rightarrow> string \<Rightarrow> seg list" where
  "ushaping_var d ch b fld = [Lit (domain_word d), Idx ch, Lit ''ushaping_band'', Idx b, Lit fld]"

text \<open>
  The per-channel loop body shared by \<open>input_ushaping_knob_gain\<close> and
  \<open>output_ushaping_knob_gain\<close>: the gain is clamped to \<open>[-15, 15]\<close>, stored and sent.
\<close>

definition knob_gain_channel :: "domain \<Rightarrow> nat \<Rightarrow> jsnum \<Rightarrow> nat \<Rightarrow> self \<Rightarrow> self" where
  "knob_gain_channel d b delta ch s =
     (let currentValue = stored_or (gain (band_at (ushapingOf d s) ch b)) 0;
          newValue = js_add currentValue delta;
          finalValue = js_clamp (-15) 15 newValue;
          s1 = set_ushaping d (update_band ch b (\<lambda>x. x\<lparr>gain := Some finalValue\<rparr>) (ushapingOf d s)) s;
          s2 = emit (CmdSendLine (ushaping_path d ch b ''gain'') (VNum finalValue)) s1;
          s3 = call_if (M_applyUShaping d) (ApplyUShaping d ch b ''gain'' (VNum finalValue)) s2;
          s4 = call_if M_setVariableValues
                 (SetVariableValues [(ushaping_var d ch b ''gain'', VFixed 1 finalValue)]) s3
      in self_log Info ''U-Shaping: gain'' s4)"

text \<open>
  \<open>input_ushaping_knob_gain\<close>: \<open>surfaceId\<close> is \<open>e.surfaceId\<close> (\<open>None\<close> when undefined) and
  \<open>now\<close> the reading of the clock.
\<close>

definition input_ushaping_knob_gain :: "int \<Rightarrow> string option \<Rightarrow> jsnum \<Rightarrow> self \<Rightarrow> self" where
  "input_ushaping_knob_gain now surfaceId delta_opt s =
     (if M_cmdSendLine \<notin> defined s then s
      else
        let chs = knob_chs Input s;
            b = knob_band Input s;
            (delta, s1) =
              (case surfaceId of
                 None \<Rightarrow> (delta_opt, s)
               | Some sid \<Rightarrow>
                   let (speedTier, s') = rotary_accel now (accel_key ''ushaping_gain_'' sid) s;
                       deltaTiers = [1 / 10, 1 / 2, 1, 2]
                   in (js_mul (num_of (tier_at deltaTiers speedTier)) (Num (sign_of delta_opt)), s'));
            s2 = fold (knob_gain_channel Input b delta) chs s1
        in call_if (M_updateUShapingCurrentValues Input) (UpdateUShapingCurrentValues Input) s2)"

text \<open>
  \<open>buildRotaryKey\<close>: \<open>surfaceId\<close> and \<open>controlId\<close> are the ids found on the event or on
  its inner event, \<open>None\<close> when neither is set.
\<close>

definition buildRotaryKey :: "string option \<Rightarrow> string option \<Rightarrow> string option" where
  "buildRotaryKey surfaceId controlId =
     (let surf = (case surfaceId of None \<Rightarrow> ''default'' | Some x \<Rightarrow> if x = [] then ''default'' else x)
      in case controlId of
           None \<Rightarrow> None
         | Some ctrl \<Rightarrow> if ctrl = [] then None else Some (surf @ ''::'' @ ctrl))"

text \<open>
  \<open>output_ushaping_knob_gain\<close>: fine or coarse step, signed by the encoder when it
  reports a direction (\<open>encoder_delta\<close> is \<open>None\<close> when it is not a number).
\<close>

definition output_ushaping_knob_gain ::
  "string option \<Rightarrow> string option \<Rightarrow> jsnum option \<Rightarrow> jsnum \<Rightarrow> jsnum \<Rightarrow> self \<Rightarrow> self" where
  "output_ushaping_knob_gain surfaceId controlId encoder_delta delta_fine delta_coarse s =
     (if M_cmdSendLine \<notin> defined s then s
      else
        let chs = knob_chs Output s;
            b = knob_band Output s;
            isCoarse = (case buildRotaryKey surfaceId controlId of
                          None \<Rightarrow> False
                        | Some k \<Rightarrow> (case rotaryPressState s k of None \<Rightarrow> False | Some p \<Rightarrow> p));
            base0 = (if isCoarse then delta_coarse else delta_fine);
            base = (case base0 of
                      NaN \<Rightarrow> (if isCoarse then 1 / 2 else 1 / 10)
                    | Num v \<Rightarrow> if v = 0 then (if isCoarse then 1 / 2 else 1 / 10) else v);
            sign0 = (if base \<ge> 0 then 1 else -1);
            sign = (case encoder_delta of
                      Some (Num ed) \<Rightarrow> if ed \<noteq> 0 then (if ed > 0 then 1 else -1) else sign0
                    | Some NaN \<Rightarrow> -1
                    | None \<Rightarrow> sign0);
            delta = \<bar>base\<bar> * sign;
            s2 = fold (knob_gain_channel Output b (Num delta)) chs s
        in call_if (M_updateUShapingCurrentValues Output) (UpdateUShapingCurrentValues Output) s2)"

text \<open>\<open>input_ushaping_knob_frequency\<close> and \<open>output_ushaping_knob_frequency\<close>.\<close>

definition freqRange :: "nat \<Rightarrow> real \<times> real \<times> real" where
  "freqRange b =
     (if b = 1 then (20, 2500, 62) else if b = 2 then (40, 5000, 250)
      else if b = 3 then (80, 10000, 1000) else if b = 4 then (160, 20000, 4000)
      else (20, 20000, 1000))"

text \<open>The octave table; every comparison with \<open>NaN\<close> is false, which selects the last row.\<close>

definition octaveTiers :: "jsnum \<Rightarrow> real list" where
  "octaveTiers currentValue =
     (case currentValue of
        NaN \<Rightarrow> [1000, 2000, 3000, 5000]
      | Num v \<Rightarrow>
          if v < 31 then [1 / 2, 1, 2, 4]
          else if v < 63 then [1, 2, 5, 10]
          else if v < 125 then [2, 5, 10, 20]
          else if v < 250 then [5, 10, 20, 40]
          else if v < 500 then [10, 20, 50, 100]
          else if v < 1000 then [20, 50, 100, 200]
          else if v < 2000 then [50, 100, 200, 500]
          else if v < 4000 then [100, 200, 500, 1000]
          else if v < 8000 then [200, 500, 1000, 2000]
          else if v < 16000 then [500, 1000, 2000, 4000]
          else [1000, 2000, 3000, 5000])"

text \<open>
  The loop body: the acceleration block sits inside the per-channel loop, so the clock is
  read and the acceleration state written once for every selected channel.
\<close>

definition knob_frequency_channel ::
  "domain \<Rightarrow> nat \<Rightarrow> jsnum \<Rightarrow> string option \<Rightarrow> int \<Rightarrow> nat \<Rightarrow> self \<Rightarrow> self" where
  "knob_frequency_channel d b delta_opt surfaceId now ch s =
     (let (rmin, rmax, rdefault) = freqRange b;
          currentValue = stored_or (frequency (band_at (ushapingOf d s) ch b)) rdefault;
          (delta, s1) =
            (case surfaceId of
               None \<Rightarrow> (delta_opt, s)
             | Some sid \<Rightarrow>
                 let (speedTier, s') = rotary_accel now (accel_key ''ushaping_freq_'' sid) s;
                     deltaTiers = octaveTiers currentValue
                 in (js_mul (num_of (tier_at deltaTiers speedTier)) (Num (sign_of delta_opt)), s'));
          newValue = js_add currentValue delta;
          finalValue = js_clamp rmin rmax newValue;
          s2 = set_ushaping d
                 (update_band ch b (\<lambda>x. x\<lparr>frequency := Some finalValue\<rparr>) (ushapingOf d s1)) s1;
          s3 = emit (CmdSendLine (ushaping_path d ch b ''frequency'') (VNum finalValue)) s2;
          s4 = call_if (M_applyUShaping d) (ApplyUShaping d ch b ''frequency'' (VNum finalValue)) s3;
          s5 = call_if M_setVariableValues
                 (SetVariableValues [(ushaping_var d ch b ''frequency'', VRounded finalValue)]) s4
      in self_log Info ''U-Shaping: frequency'' s5)"

text \<open>\<open>clock k\<close> is the reading of \<open>Date.now()\<close> in the iteration for the \<open>k\<close>-th channel.\<close>

fun knob_frequency_loop ::
  "domain \<Rightarrow> nat \<Rightarrow> jsnum \<Rightarrow> string option \<Rightarrow> (nat \<Rightarrow> int) \<Rightarrow> nat \<Rightarrow> nat list \<Rightarrow> self \<Rightarrow> self" where
  "knob_frequency_loop d b delta_opt surfaceId clock k [] s = s"
| "knob_frequency_loop d b delta_opt surfaceId clock k (ch # chs) s =
     knob_frequency_loop d b delta_opt surfaceId clock (Suc k) chs
       (knob_frequency_channel d b delta_opt surfaceId (clock k) ch s)"

definition ushaping_knob_frequency ::
  "domain \<Rightarrow> (nat \<Rightarrow> int) \<Rightarrow> string option \<Rightarrow> jsnum \<Rightarrow> self \<Rightarrow> self" where
  "ushaping_knob_frequency d clock surfaceId delta_opt s =
     (if M_cmdSendLine \<notin> defined s then s
      else
        let chs = knob_chs d s;
            b = knob_band d s
        in if b = 5 then
             self_log Warn ''U-Shaping: Band 5 (HF) does not have frequency parameter'' s
           else
             call_if (M_updateUShapingCurrentValues d) (UpdateUShapingCurrentValues d)
               (knob_frequency_loop d b delta_opt surfaceId clock 0 chs s))"

text \<open>\<open>input_ushaping_knob_slope\<close> and \<open>output_ushaping_knob_slope\<close>.\<close>

definition slopeValues :: "real list" where
  "slopeValues = [6, 12, 18, 24, 30, 36, 42, 48]"

text \<open>The search for the table entry closest to the current slope; ties keep the earlier one.\<close>

fun closest_from :: "real \<Rightarrow> nat \<Rightarrow> real \<Rightarrow> nat \<Rightarrow> nat \<Rightarrow> nat" where
  "closest_from cur currentIndex minDiff i 0 = currentIndex"
| "closest_from cur currentIndex minDiff i (Suc n) =
     (let diff = \<bar>slopeValues ! i - cur\<bar>
      in if diff < minDiff then closest_from cur i diff (Suc i) n
         else closest_from cur currentIndex minDiff (Suc i) n)"

definition closest_index :: "jsnum \<Rightarrow> nat" where
  "closest_index currentValue =
     (case currentValue of
        NaN \<Rightarrow> 0
      | Num cur \<Rightarrow> closest_from cur 0 \<bar>slopeValues ! 0 - cur\<bar> 1 (length slopeValues - 1))"

definition knob_slope_channel :: "domain \<Rightarrow> nat \<Rightarrow> string \<Rightarrow> nat option \<Rightarrow> nat \<Rightarrow> self \<Rightarrow> self" where
  "knob_slope_channel d b direction stepCount ch s =
     (let currentValue = stored_or (slope (band_at (ushapingOf d s) ch b)) 12;
          currentIndex = closest_index currentValue;
          finalValue =
            (case stepCount of
               None \<Rightarrow> None
             | Some n \<Rightarrow>
                 let newIndex = (if direction = ''up''
                                 then (currentIndex + n) mod length slopeValues
                                 else nat ((int currentIndex - int n + int (length slopeValues))
                                           mod int (length slopeValues)))
                 in Some (Num (slopeValues ! newIndex)));
          sent = (case finalValue of None \<Rightarrow> VUndefined | Some v \<Rightarrow> VNum v);
          s1 = set_ushaping d (update_band ch b (\<lambda>x. x\<lparr>slope := finalValue\<rparr>) (ushapingOf d s)) s;
          s2 = emit (CmdSendLine (ushaping_path d ch b ''slope'') sent) s1;
          s3 = call_if (M_applyUShaping d) (ApplyUShaping d ch b ''slope'' sent) s2;
          s4 = call_if M_setVariableValues
                 (SetVariableValues [(ushaping_var d ch b ''slope'',
                    VRounded (case finalValue of None \<Rightarrow> NaN | Some v \<Rightarrow> v))]) s3
      in self_log Info ''U-Shaping: slope'' s4)"

definition ushaping_knob_slope :: "domain \<Rightarrow> int \<Rightarrow> string option \<Rightarrow> string \<Rightarrow> self \<Rightarrow> self" where
  "ushaping_knob_slope d now surfaceId direction_opt s =
     (if M_cmdSendLine \<notin> defined s then s
      else
        let chs = knob_chs d s;
            b = knob_band d s;
            direction = (if direction_opt = [] then ''up'' else direction_opt);
            (stepCount, s1) =
              (case surfaceId of
                 None \<Rightarrow> (Some 1, s)
               | Some sid \<Rightarrow>
                   let (speedTier, s') = rotary_accel now (accel_key ''ushaping_slope_'' sid) s;
                       stepTiers = [1, 2, 3, 4]
                   in (tier_at stepTiers speedTier, s'));
            s2 = fold (knob_slope_channel d b direction stepCount) chs s1
        in call_if (M_updateUShapingCurrentValues d) (UpdateUShapingCurrentValues d) s2)"

section \<open>U-Shaping set and adjust\<close>

record ushaping_options =
  uopt_chs :: "int option list"
  uopt_band :: nat
  uopt_param :: string
  uopt_mode :: string
  uopt_gain_value :: jsnum
  uopt_gain_delta :: jsnum
  uopt_frequency_value :: jsnum
  uopt_frequency_delta :: jsnum
  uopt_slope_value :: jsnum
  uopt_slope_delta :: jsnum

text \<open>
  The value \<open>input_ushaping_adjust\<close> computes for one channel; \<open>None\<close> is \<open>undefined\<close>,
  left by a parameter name that is none of the three.
\<close>

definition ushaping_finalValue :: "ushaping_options \<Rightarrow> nat \<Rightarrow> self \<Rightarrow> jsnum option" where
  "ushaping_finalValue opts ch s =
     (let bd = band_at (inputUShaping s) ch (uopt_band opts);
          param = uopt_param opts
      in if uopt_mode opts = ''adjust'' then
           (if param = ''gain'' then
              Some (js_clamp (-18) 18 (js_add (stored_or (gain bd) 0) (uopt_gain_delta opts)))
            else if param = ''frequency'' then
              Some (js_clamp 10 20000
                      (js_add (stored_or (frequency bd) 1000) (uopt_frequency_delta opts)))
            else if param = ''slope'' then
              Some (js_clamp (1 / 10) 2 (js_add (stored_or (slope bd) 1) (uopt_slope_delta opts)))
            else None)
         else
           (if param = ''gain'' then Some (js_clamp (-18) 18 (uopt_gain_value opts))
            else if param = ''frequency'' then Some (js_clamp 10 20000 (uopt_frequency_value opts))
            else if param = ''slope'' then Some (js_clamp (1 / 10) 2 (uopt_slope_value opts))
            else None))"

definition ushaping_adjust_channel :: "ushaping_options \<Rightarrow> nat \<Rightarrow> self \<Rightarrow> self" where
  "ushaping_adjust_channel opts ch s =
     (let finalValue = ushaping_finalValue opts ch s;
          sent = (case finalValue of None \<Rightarrow> VUndefined | Some v \<Rightarrow> VNum v);
          s1 = emit (CmdSendLine (ushaping_path Input ch (uopt_band opts) (uopt_param opts)) sent) s;
          s2 = call_if (M_applyUShaping Input)
                 (ApplyUShaping Input ch (uopt_band opts) (uopt_param opts) sent) s1
      in self_log Info ''Input ch: U-Shaping band'' s2)"

definition input_ushaping_adjust :: "nat \<Rightarrow> ushaping_options \<Rightarrow> self \<Rightarrow> self" where
  "input_ushaping_adjust NUM_INPUTS opts s =
     (if M_cmdSendLine \<notin> defined s then s
      else
        let chs = safeGetChannels (uopt_chs opts) NUM_INPUTS in
        if length chs = 0 then self_log Warn ''No valid input channels selected'' s
        else if uopt_band opts = 5 \<and> uopt_param opts \<noteq> ''gain'' then
          self_log Warn ''Band 5 only supports gain parameter'' s
        else fold (ushaping_adjust_channel opts) chs s)"

section \<open>HF attenuation\<close>

text \<open>
  A division whose divisor is zero gives no finite number in JavaScript; the model makes
  that case visible as \<open>NaN\<close> instead of HOL's \<open>x / 0 = 0\<close>.
\<close>

definition js_div :: "real \<Rightarrow> real \<Rightarrow> jsnum" where
  "js_div a b = (if b = 0 then NaN else Num (a / b))"

fun js_sub :: "jsnum \<Rightarrow> jsnum \<Rightarrow> jsnum" where
  "js_sub (Num a) (Num b) = Num (a - b)"
| "js_sub _ _ = NaN"

fun roundTenth :: "jsnum \<Rightarrow> jsnum" where
  "roundTenth (Num v) = Num (real_of_int (Math_round (v * 10)) / 10)"
| "roundTenth NaN = NaN"

definition hf_rawDb :: "int \<Rightarrow> real \<Rightarrow> real \<Rightarrow> int \<Rightarrow> jsnum" where
  "hf_rawDb spanN posMax negMax boxIndex =
     (let logBase = ln (real_of_int spanN) in
      if boxIndex \<le> spanN then
        let t = js_div (ln (real_of_int boxIndex)) logBase
        in js_mul (Num posMax) (js_sub (Num 1) t)
      else
        let j = max 1 (2 * spanN - boxIndex + 1);
            sv = js_div (logBase - ln (real_of_int j)) logBase
        in js_mul (Num (- negMax)) sv)"

definition hf_assign :: "nat \<Rightarrow> jsnum \<Rightarrow> self \<Rightarrow> self" where
  "hf_assign ch db s =
     (let m1 = update_band ch 4 (\<lambda>x. x\<lparr>frequency := Some (Num 8000), slope := Some (Num 1)\<rparr>)
                 (outputUShaping s);
          m2 = update_band ch 5 (\<lambda>x. x\<lparr>gain := Some db\<rparr>) m1;
          s1 = s\<lparr>outputUShaping := m2\<rparr>;
          s2 = emit (CmdSendLine (ushaping_path Output ch 4 ''frequency'') (VNum (Num 8000))) s1;
          s3 = emit (CmdSendLine (ushaping_path Output ch 4 ''slope'') (VNum (Num 1))) s2;
          s4 = emit (CmdSendLine (ushaping_path Output ch 5 ''gain'') (VNum db)) s3
      in call_if M_setVariableValues
           (SetVariableValues
              [(ushaping_var Output ch 4 ''frequency'', VRounded (Num 8000)),
               (ushaping_var Output ch 4 ''slope'', VRounded (Num 1)),
               (ushaping_var Output ch 5 ''gain'', VFixed 1 db)]) s4)"

text \<open>
  The loop \<open>for (let i = 0; i < total; i++)\<close> with its \<open>break\<close>; the second component
  collects \<open>assignments\<close>.
\<close>

fun hf_loop ::
  "nat \<Rightarrow> nat \<Rightarrow> int \<Rightarrow> real \<Rightarrow> real \<Rightarrow> nat list \<Rightarrow> self \<times> (nat \<times> jsnum) list
     \<Rightarrow> self \<times> (nat \<times> jsnum) list" where
  "hf_loop NUM_OUTPUTS start spanN posMax negMax [] acc = acc"
| "hf_loop NUM_OUTPUTS start spanN posMax negMax (i # rest) (s, assignments) =
     (let boxIndex = i + 1;
          ch = start + i
      in if ch > NUM_OUTPUTS then (s, assignments)
         else
           let db = roundTenth (hf_rawDb spanN posMax negMax (int boxIndex))
           in hf_loop NUM_OUTPUTS start spanN posMax negMax rest
                (hf_assign ch db s, assignments @ [(ch, db)]))"

definition hf_start :: "nat \<Rightarrow> jsnum \<Rightarrow> int" where
  "hf_start NUM_OUTPUTS start_opt = max 1 (min (int NUM_OUTPUTS) (Math_round (or_default start_opt 1)))"

definition hf_total :: "nat \<Rightarrow> int \<Rightarrow> jsnum \<Rightarrow> int" where
  "hf_total NUM_OUTPUTS start total_opt =
     (let totalN = (case total_opt of Num v \<Rightarrow> Math_round v | NaN \<Rightarrow> int NUM_OUTPUTS)
      in max 1 (min totalN (int NUM_OUTPUTS - start + 1)))"

definition hf_span :: "int \<Rightarrow> int" where
  "hf_span totalN = max 1 (Math_ceil (real_of_int totalN / 2))"

definition output_hf_attenuation :: "nat \<Rightarrow> jsnum \<Rightarrow> jsnum \<Rightarrow> jsnum \<Rightarrow> self \<Rightarrow> self" where
  "output_hf_attenuation NUM_OUTPUTS start_opt total_opt ratio_opt s =
     (if M_cmdSendLine \<notin> defined s then s
      else
        let start = hf_start NUM_OUTPUTS start_opt;
            totalN = hf_total NUM_OUTPUTS start total_opt;
            spanN = hf_span totalN;
            logBase = ln (real_of_int spanN)
        in if logBase \<le> 0 then self_log Warn ''HF attenuation: invalid span (must be > 1)'' s
           else
             let totalSwing = max (1 / 10) (min 24 (finite_or ratio_opt 8));
                 posMax = totalSwing / 3;
                 negMax = (totalSwing * 2) / 3;
                 (s1, assignments) =
                   hf_loop NUM_OUTPUTS (nat start) spanN posMax negMax [0..<nat totalN] (s, [])
             in if length assignments > 0 then self_log Info ''HF attenuation from output'' s1
                else s1)"

section \<open>Reading the trace\<close>

text \<open>The gains applied to one channel, in order: the targets of the set and fade calls.\<close>

fun applied_gain :: "domain \<Rightarrow> nat \<Rightarrow> event \<Rightarrow> jsnum option" where
  "applied_gain d ch (SetGain d' ch' v) = (if d' = d \<and> ch' = ch then Some v else None)"
| "applied_gain d ch (StartGainFade d' ch' v dur crv) = (if d' = d \<and> ch' = ch then Some v else None)"
| "applied_gain d ch _ = None"

definition applied_gains :: "domain \<Rightarrow> nat \<Rightarrow> event list \<Rightarrow> jsnum list" where
  "applied_gains d ch tr = List.map_filter (applied_gain d ch) tr"

text \<open>The options of the gain action used as a concrete example: a pair of 0 dB and -6 dB.\<close>

definition pair_opts :: gain_options where
  "pair_opts = \<lparr>opt_chs = [Some 3], opt_target = ''pair'', opt_gain = Num 0, opt_delta = Num 0,
     opt_gain_a = Num 0, opt_gain_b = Num (-6), opt_fadeMs = Num 0, opt_curve = ''linear''\<rparr>"

text \<open>A module instance on which output 2 is muted, used as a concrete example.\<close>

definition muted_example :: self where
  "muted_example = fresh\<lparr>outMute := [2 \<mapsto> True]\<rparr>"

text \<open>
  The calls one iteration of the HF attenuation loop makes for channel \<open>ch\<close> and gain
  \<open>db\<close>, in order; \<open>vars\<close> tells whether the module has \<open>setVariableValues\<close>.
\<close>

definition hf_events :: "bool \<Rightarrow> nat \<Rightarrow> jsnum \<Rightarrow> event list" where
  "hf_events vars ch db =
     [CmdSendLine (ushaping_path Output ch 4 ''frequency'') (VNum (Num 8000)),
      CmdSendLine (ushaping_path Output ch 4 ''slope'') (VNum (Num 1)),
      CmdSendLine (ushaping_path Output ch 5 ''gain'') (VNum db)]
     @ (if vars then
          [SetVariableValues
             [(ushaping_var Output ch 4 ''frequency'', VRounded (Num 8000)),
              (ushaping_var Output ch 4 ''slope'', VRounded (Num 1)),
              (ushaping_var Output ch 5 ''gain'', VFixed 1 db)]]
        else [])"

text \<open>The rounded gain of the loudspeaker at 0-based position \<open>i\<close>.\<close>

definition hf_db :: "int \<Rightarrow> real \<Rightarrow> real \<Rightarrow> nat \<Rightarrow> jsnum" where
  "hf_db spanN posMax negMax i = roundTenth (hf_rawDb spanN posMax negMax (int (i + 1)))"

section \<open>Concrete examples\<close>

text \<open>Inputs 1 and 2 selected together for the U-Shaping knobs, band 1.\<close>

definition linked_example :: self where
  "linked_example =
     fresh\<lparr>ushapingKnobControl := Some \<lparr>selected = Some [1, 2], selectedBand = Some 1\<rparr>\<rparr>"

text \<open>The U-Shaping set action asked to set the slope of band 1 of input 1 to 18.\<close>

definition slope_18_opts :: ushaping_options where
  "slope_18_opts =
     \<lparr>uopt_chs = [Some 1], uopt_band = 1, uopt_param = ''slope'', uopt_mode = ''set'',
      uopt_gain_value = Num 0, uopt_gain_delta = Num 0, uopt_frequency_value = Num 1000,
      uopt_frequency_delta = Num 0, uopt_slope_value = Num 18, uopt_slope_delta = Num 0\<rparr>"

section \<open>Properties\<close>

subsection \<open>Delay conversion\<close>

lemma feet_ms: "valueToMs (Num 100) ''1'' = 100 * 1000 / 1125"
  by (simp add: valueToMs_def)

lemma feet_target_500: "roundTo01 (clamp (valueToMs (Num 100) ''1'') 0 500) = 8889 / 100"
  by (simp add: valueToMs_def roundTo01_def clamp_def Math_round_def)

lemma feet_target_2000: "roundTo01 (clamp (valueToMs (Num 100) ''1'') 0 2000) = 8889 / 100"
  by (simp add: valueToMs_def roundTo01_def clamp_def Math_round_def)

lemma feet_samples: "delay_samples (8889 / 100) = 8533"
  by (simp add: delay_samples_def Math_round_def)

text \<open>
  Claim C2, as the code has it: 100 feet are \<open>100 * 1000 / 1125\<close> ms; clamped (to
  \<open>[0, 500]\<close> for input and matrix delays, to \<open>[0, 2000]\<close> for output delays) and then
  rounded to 0.01 ms this is 88.89 ms; the sample count is \<open>round(88.89 * 96) =
  round(8533.44) = 8533\<close>. The matrix action sends it; the input and output actions hand
  88.89 ms to \<open>_setInputDelayMs\<close> or \<open>_setOutputDelayMs\<close> when the module has that method
  and send 8533 samples themselves otherwise.
\<close>

theorem delay_feet_100:
  "valueToMs (Num 100) ''1'' = 100 * 1000 / 1125
   \<and> roundTo01 (clamp (valueToMs (Num 100) ''1'') 0 500) = 8889 / 100
   \<and> roundTo01 (clamp (valueToMs (Num 100) ''1'') 0 2000) = 8889 / 100
   \<and> delay_samples (8889 / 100) = 8533
   \<and> input_delay_channel ''1'' (Num 100) ch s =
       (if M_setInputDelayMs \<in> defined s then emit (SetDelayMs Input ch (8889 / 100)) s
        else if M_cmdSendLine \<in> defined s then
          call_if M_applyInputDelay (ApplyDelay Input ch 8533)
            (emit (CmdSendLine [Lit ''processing'', Lit ''input'', Idx ch, Lit ''delay''] (VInt 8533)) s)
        else s)
   \<and> output_delay_channel ''1'' (Num 100) ch s =
       (if M_setOutputDelayMs \<in> defined s then emit (SetDelayMs Output ch (8889 / 100)) s
        else if M_cmdSendLine \<in> defined s then
          call_if M_applyOutputDelay (ApplyDelay Output ch 8533)
            (emit (CmdSendLine [Lit ''processing'', Lit ''output'', Idx ch, Lit ''delay''] (VInt 8533)) s)
        else s)
   \<and> matrix_delay_pair ''1'' (Num 100) ''unchanged'' i j s =
       call_if M_applyMatrixDelay (ApplyMatrixDelay i j 8533)
         (emit (CmdSendLine [Lit ''processing'', Lit ''matrix'', Idx i, Idx j, Lit ''delay''] (VInt 8533))
            (call_if M_applyMatrixDelayType (ApplyMatrixDelayType i j (Num 1))
               (emit (CmdSendLine [Lit ''processing'', Lit ''matrix'', Idx i, Idx j, Lit ''delay_type'']
                        (VQuoted ''1'')) s)))"
proof (intro conjI)
  show "valueToMs (Num 100) ''1'' = 100 * 1000 / 1125"
    by (rule feet_ms)
qed (simp_all add: feet_target_500 feet_target_2000 feet_samples input_delay_channel_def
      output_delay_channel_def matrix_delay_pair_def Let_def unit_number_def)

text \<open>
  Claim C2 as stated fails: for 100 feet the sample count is not 8534, and the matrix
  delay action on input 1 and output 1 never sends a delay of 8534 samples.
\<close>

theorem delay_feet_100_not_8534:
  "delay_samples (roundTo01 (clamp (valueToMs (Num 100) ''1'') 0 500)) \<noteq> 8534
   \<and> CmdSendLine [Lit ''processing'', Lit ''matrix'', Idx 1, Idx 1, Lit ''delay''] (VInt 8534)
       \<notin> set (trace (matrix_delay_full 16 [Some 1] [Some 1] ''1'' (Num 100) ''unchanged'' fresh))"
  by (simp add: feet_target_500 feet_samples matrix_delay_full_def safeGetChannels_def
      List.map_filter_def typeId_of_def matrix_delay_pair_def Let_def call_if_def emit_def
      fresh_def unit_number_def)

subsection \<open>The unchanged unit\<close>

lemma fold_id: "(\<And>x s. f x s = s) \<Longrightarrow> fold f xs s = s"
  by (induction xs) simp_all

text \<open>
  Claim C7 as stated fails for the matrix delay action: with the unit left unchanged and
  the delay status set to on, a \<open>delay_bypass\<close> command is sent and the bypass state is
  applied.
\<close>

theorem unchanged_unit_matrix_still_sends:
  "trace (matrix_delay_full 16 [Some 1] [Some 1] ''unchanged'' (Num 5) ''on'' fresh) =
     [CmdSendLine [Lit ''processing'', Lit ''matrix'', Idx 1, Idx 1, Lit ''delay_bypass'']
        (VQuotedBool False),
      ApplyMatrixDelayBypass 1 1 False]"
  by (simp add: matrix_delay_full_def safeGetChannels_def List.map_filter_def typeId_of_def
      matrix_delay_pair_def Let_def call_if_def emit_def fresh_def)

text \<open>
  Claim C7, amended: when the unit option is unchanged, the input and the output delay
  action leave the module instance as it is (apart from the warning for an empty
  selection): nothing is converted, sent or stored. The matrix delay action sends no
  \<open>delay_type\<close> and no \<open>delay\<close> command and applies neither; for each pair it does only
  what its delay status option asks (a \<open>delay_bypass\<close> command and its local update), and
  nothing at all when that option is unchanged too.
\<close>

theorem delay_unchanged:
  assumes "typeId_of type_opt = ''unchanged''"
  shows "input_delay_set NI chs type_opt v s =
           (if safeGetChannels chs NI = [] then self_log Warn ''No valid input channels selected'' s else s)
       \<and> output_delay_set NO chs type_opt v s =
           (if safeGetChannels chs NO = [] then self_log Warn ''No valid output channels selected'' s else s)
       \<and> matrix_delay_pair (typeId_of type_opt) v status i j s =
           (if status \<noteq> ''unchanged'' then
              let newState = (if status = ''toggle''
                              then \<not> (case matrixDelay s (i, j) of None \<Rightarrow> False | Some b \<Rightarrow> b)
                              else status = ''off'')
              in call_if M_applyMatrixDelayBypass (ApplyMatrixDelayBypass i j newState)
                   (emit (CmdSendLine [Lit ''processing'', Lit ''matrix'', Idx i, Idx j, Lit ''delay_bypass'']
                            (VQuotedBool newState)) s)
            else s)
       \<and> (typeId_of status_opt = ''unchanged'' \<longrightarrow>
            matrix_delay_full NO ins outs type_opt v status_opt s =
              (if safeGetChannels ins 32 = [] \<or> safeGetChannels outs NO = []
               then self_log Warn ''No valid matrix channels selected'' s else s))"
proof -
  have a: "fold (input_delay_channel ''unchanged'' v) xs s = s" for xs
    by (rule fold_id) (simp add: input_delay_channel_def)
  have b: "fold (output_delay_channel ''unchanged'' v) xs s = s" for xs
    by (rule fold_id) (simp add: output_delay_channel_def)
  have c: "matrix_delay_pair ''unchanged'' v ''unchanged'' i' j' s' = s'" for i' j' s'
    by (simp add: matrix_delay_pair_def)
  have d: "fold (\<lambda>i. fold (matrix_delay_pair ''unchanged'' v ''unchanged'' i) ys) xs s = s" for xs ys
    by (rule fold_id) (rule fold_id, rule c)
  show ?thesis
    using assms by (simp add: input_delay_set_def output_delay_set_def matrix_delay_full_def
        matrix_delay_pair_def a b d Let_def)
qed

text \<open>Witness for claim C7: the three actions on a fresh instance with the unit unchanged.\<close>

theorem delay_unchanged_witness:
  "input_delay_set 8 [Some 1, Some 2] ''unchanged'' (Num 5) fresh = fresh
   \<and> output_delay_set 16 [Some 3] [] (Num 5) fresh = fresh
   \<and> matrix_delay_full 16 [Some 1] [Some 2] ''unchanged'' (Num 5) ''unchanged'' fresh = fresh"
proof -
  have t: "typeId_of ''unchanged'' = ''unchanged''" "typeId_of [] = ''unchanged''"
    by (simp_all add: typeId_of_def)
  have n: "safeGetChannels [Some 1, Some 2] 8 \<noteq> []" "safeGetChannels [Some 3] 16 \<noteq> []"
     "safeGetChannels [Some 1] 32 \<noteq> []" "safeGetChannels [Some 2] 16 \<noteq> []"
    by (simp_all add: safeGetChannels_def List.map_filter_def)
  show ?thesis
    using delay_unchanged [OF t(1), where NI = 8 and chs = "[Some 1, Some 2]" and v = "Num 5"
          and s = fresh and NO = 16 and status_opt = "''unchanged''" and ins = "[Some 1]"
          and outs = "[Some 2]"]
      delay_unchanged [OF t(2), where NO = 16 and chs = "[Some 3]" and v = "Num 5" and s = fresh]
      t n by simp
qed

subsection \<open>Basic facts\<close>

lemma set_dedup: "set (dedup xs) = set xs"
  by (induction xs rule: dedup.induct) auto

lemma distinct_dedup: "distinct (dedup xs)"
  by (induction xs rule: dedup.induct) (auto simp: set_dedup)

lemma distinct_safeGetChannels: "distinct (safeGetChannels raw mx)"
  by (simp add: safeGetChannels_def distinct_dedup)

lemma defined_emit [simp]: "defined (emit ev s) = defined s"
  by (simp add: emit_def)

lemma trace_emit [simp]: "trace (emit ev s) = trace s @ [ev]"
  by (simp add: emit_def)

lemma defined_call_if [simp]: "defined (call_if m ev s) = defined s"
  by (simp add: call_if_def)

lemma trace_call_if: "trace (call_if m ev s) = trace s @ (if m \<in> defined s then [ev] else [])"
  by (simp add: call_if_def)

lemma defined_self_log [simp]: "defined (self_log lv msg s) = defined s"
  by (simp add: self_log_def)

lemma gainToggleOf_emit [simp]: "gainToggleOf d (emit ev s) = gainToggleOf d s"
  by (cases d) (simp_all add: emit_def gainToggleOf_def)

lemma gainToggleOf_call_if [simp]: "gainToggleOf d (call_if m ev s) = gainToggleOf d s"
  by (simp add: call_if_def)

lemma defined_set_gainToggle [simp]: "defined (set_gainToggle d ch v s) = defined s"
  by (cases d) (simp_all add: set_gainToggle_def)

lemma trace_set_gainToggle [simp]: "trace (set_gainToggle d ch v s) = trace s"
  by (cases d) (simp_all add: set_gainToggle_def)

lemma gainToggleOf_set_gainToggle [simp]:
  "gainToggleOf d (set_gainToggle d ch v s) = (gainToggleOf d s)(ch \<mapsto> v)"
  by (cases d) (simp_all add: set_gainToggle_def gainToggleOf_def)

lemma applied_gains_Nil [simp]: "applied_gains d ch [] = []"
  by (simp add: applied_gains_def List.map_filter_def)

lemma applied_gains_append [simp]:
  "applied_gains d ch (xs @ ys) = applied_gains d ch xs @ applied_gains d ch ys"
  by (simp add: applied_gains_def List.map_filter_def)

lemma applied_gains_single:
  "applied_gains d ch [ev] = (case applied_gain d ch ev of None \<Rightarrow> [] | Some v \<Rightarrow> [v])"
  by (simp add: applied_gains_def List.map_filter_def split: option.splits)

lemma defined_apply_gain [simp]: "defined (apply_gain d c target dur crv s) = defined s"
  by (simp add: apply_gain_def)

lemma gainToggleOf_apply_gain [simp]:
  "gainToggleOf d' (apply_gain d c target dur crv s) = gainToggleOf d' s"
  by (simp add: apply_gain_def)

lemma applied_gains_apply_gain:
  "M_setGain d \<in> defined s \<Longrightarrow>
   applied_gains d ch (trace (apply_gain d c target dur crv s)) =
     applied_gains d ch (trace s) @ (if ch = c then [target] else [])"
  by (simp add: apply_gain_def applied_gains_single)

lemma applied_gains_call_if_other:
  "applied_gain d ch ev = None \<Longrightarrow>
   applied_gains d ch (trace (call_if m ev s)) = applied_gains d ch (trace s)"
  by (simp add: trace_call_if applied_gains_single)

subsection \<open>The gain pair toggle\<close>

lemma pair_step:
  assumes "M_setGain d \<in> defined s"
  shows "defined (gain_pair_channel d btn gA gB dur crv c s) = defined s"
    and "gainToggleOf d (gain_pair_channel d btn gA gB dur crv c s) ch =
           (if ch = c then Some (if gainToggleOf d s c = Some ToggleA then ToggleB else ToggleA)
            else gainToggleOf d s ch)"
    and "applied_gains d ch (trace (gain_pair_channel d btn gA gB dur crv c s)) =
           applied_gains d ch (trace s)
             @ (if ch = c then [if gainToggleOf d s c = Some ToggleA then gB else gA] else [])"
  using assms
  by (simp_all add: gain_pair_channel_def Let_def applied_gains_apply_gain
      applied_gains_call_if_other)

lemma pair_fold:
  assumes "distinct chs" "M_setGain d \<in> defined s"
  shows "defined (fold (gain_pair_channel d btn gA gB dur crv) chs s) = defined s
       \<and> gainToggleOf d (fold (gain_pair_channel d btn gA gB dur crv) chs s) ch =
           (if ch \<in> set chs then Some (if gainToggleOf d s ch = Some ToggleA then ToggleB else ToggleA)
            else gainToggleOf d s ch)
       \<and> applied_gains d ch (trace (fold (gain_pair_channel d btn gA gB dur crv) chs s)) =
           applied_gains d ch (trace s)
             @ (if ch \<in> set chs then [if gainToggleOf d s ch = Some ToggleA then gB else gA] else [])"
  using assms
proof (induction chs arbitrary: s)
  case Nil
  then show ?case by simp
next
  case (Cons c chs)
  let ?s1 = "gain_pair_channel d btn gA gB dur crv c s"
  have d1: "M_setGain d \<in> defined ?s1" using Cons.prems(2) by (simp add: pair_step(1))
  have dc: "distinct chs" "c \<notin> set chs" using Cons.prems(1) by auto
  note ih = Cons.IH [OF dc(1) d1]
  show ?case
    using ih dc(2) Cons.prems(2) by (auto simp: pair_step)
qed

lemma gain_set_pair:
  assumes "M_setGain d \<in> defined s" "opt_target opts = ''pair''"
  shows "defined (gain_set d N opts btn s) = defined s
       \<and> gainToggleOf d (gain_set d N opts btn s) ch =
           (if ch \<in> set (safeGetChannels (opt_chs opts) N)
            then Some (if gainToggleOf d s ch = Some ToggleA then ToggleB else ToggleA)
            else gainToggleOf d s ch)
       \<and> applied_gains d ch (trace (gain_set d N opts btn s)) =
           applied_gains d ch (trace s)
             @ (if ch \<in> set (safeGetChannels (opt_chs opts) N)
                then [if gainToggleOf d s ch = Some ToggleA then opt_gain_b opts else opt_gain_a opts]
                else [])"
proof (cases "safeGetChannels (opt_chs opts) N = []")
  case True
  then show ?thesis
    by (simp add: gain_set_def self_log_def trace_call_if applied_gains_single)
next
  case False
  then show ?thesis
    using assms pair_fold [OF distinct_safeGetChannels [of "opt_chs opts" N] assms(1)]
    by (simp add: gain_set_def Let_def)
qed

text \<open>
  Claim C6: on a module instance that can set gains, for a selected channel whose toggle
  state is unset, three invocations of the gain action in pair mode apply gain A, then
  gain B, then gain A again to that channel; with \<open>gain_a = 0\<close> and \<open>gain_b = -6\<close> that is
  0 dB, -6 dB, 0 dB.
\<close>

theorem gain_pair_alternates:
  assumes "M_setGain d \<in> defined s"
    and "gainToggleOf d s ch = None"
    and "ch \<in> set (safeGetChannels (opt_chs opts) N)"
    and "opt_target opts = ''pair''"
  shows "applied_gains d ch (trace (gain_set d N opts b1 s)) =
           applied_gains d ch (trace s) @ [opt_gain_a opts]
       \<and> applied_gains d ch (trace (gain_set d N opts b2 (gain_set d N opts b1 s))) =
           applied_gains d ch (trace s) @ [opt_gain_a opts, opt_gain_b opts]
       \<and> applied_gains d ch
           (trace (gain_set d N opts b3 (gain_set d N opts b2 (gain_set d N opts b1 s)))) =
           applied_gains d ch (trace s) @ [opt_gain_a opts, opt_gain_b opts, opt_gain_a opts]"
proof -
  let ?s1 = "gain_set d N opts b1 s"
  let ?s2 = "gain_set d N opts b2 ?s1"
  note g1 = gain_set_pair [OF assms(1) assms(4), of N b1 ch]
  have d1: "M_setGain d \<in> defined ?s1" using g1 assms(1) by simp
  note g2 = gain_set_pair [OF d1 assms(4), of N b2 ch]
  have d2: "M_setGain d \<in> defined ?s2" using g2 d1 by simp
  note g3 = gain_set_pair [OF d2 assms(4), of N b3 ch]
  show ?thesis using g1 g2 g3 assms(2,3) by simp
qed

text \<open>Witness for claim C6: output 3, gain A 0 dB and gain B -6 dB, from a fresh instance.\<close>

theorem gain_pair_alternates_witness:
  "applied_gains Output 3
     (trace (gain_set Output 16 pair_opts None (gain_set Output 16 pair_opts None
        (gain_set Output 16 pair_opts None fresh)))) = [Num 0, Num (-6), Num 0]"
proof -
  have a: "M_setGain Output \<in> defined fresh" "gainToggleOf Output fresh 3 = None"
     "trace fresh = []"
    by (simp_all add: fresh_def gainToggleOf_def)
  have b: "3 \<in> set (safeGetChannels (opt_chs pair_opts) 16)" "opt_target pair_opts = ''pair''"
    "opt_gain_a pair_opts = Num 0" "opt_gain_b pair_opts = Num (-6)"
    by (simp_all add: pair_opts_def safeGetChannels_def List.map_filter_def)
  show ?thesis
    using gain_pair_alternates [OF a(1) a(2) b(1) b(2), of None None None] a(3) b(3,4)
    by (simp add: applied_gains_def List.map_filter_def)
qed

subsection \<open>Degenerate span and empty selections\<close>

lemma hf_span_small: "t \<le> 2 \<Longrightarrow> hf_span t = 1"
proof -
  assume "t \<le> 2"
  then have "real_of_int t / 2 \<le> 1" by simp
  then have "\<lceil>real_of_int t / 2\<rceil> \<le> 1" by (simp add: ceiling_le_iff)
  then show ?thesis by (simp add: hf_span_def Math_ceil_def)
qed

lemma hf_span_le_1_iff: "hf_span t \<le> 1 \<longleftrightarrow> t \<le> 2"
proof
  assume a: "hf_span t \<le> 1"
  then have "\<lceil>real_of_int t / 2\<rceil> \<le> 1" by (simp add: hf_span_def Math_ceil_def)
  then have "real_of_int t / 2 \<le> 1" by (simp add: ceiling_le_iff)
  then show "t \<le> 2" by simp
next
  assume "t \<le> 2" then show "hf_span t \<le> 1" by (simp add: hf_span_small)
qed

text \<open>
  Claim C4: when the half-array span \<open>ceil(total / 2)\<close> is at most 1, that is when the
  clamped number of loudspeakers is 1 or 2, the HF attenuation action does nothing but
  log the warning "invalid span": the module instance is otherwise unchanged, so no
  command is sent and nothing is stored, and it returns before any division by the
  logarithm of the span.
\<close>

theorem hf_invalid_span:
  assumes "M_cmdSendLine \<in> defined s"
    and "hf_span (hf_total N (hf_start N start_opt) total_opt) \<le> 1"
  shows "hf_total N (hf_start N start_opt) total_opt \<in> {1, 2}
       \<and> output_hf_attenuation N start_opt total_opt ratio_opt s =
           self_log Warn ''HF attenuation: invalid span (must be > 1)'' s
       \<and> output_hf_attenuation N start_opt total_opt ratio_opt s =
           (if M_log \<in> defined s
            then s\<lparr>trace := trace s @ [LogMsg Warn ''HF attenuation: invalid span (must be > 1)'']\<rparr>
            else s)"
proof -
  let ?t = "hf_total N (hf_start N start_opt) total_opt"
  have t2: "?t \<le> 2" using assms(2) by (simp add: hf_span_le_1_iff)
  have t1: "1 \<le> ?t" by (simp add: hf_total_def Let_def)
  have sp: "hf_span ?t = 1" using t2 by (rule hf_span_small)
  have eq: "output_hf_attenuation N start_opt total_opt ratio_opt s =
           self_log Warn ''HF attenuation: invalid span (must be > 1)'' s"
    using assms(1) sp by (simp add: output_hf_attenuation_def Let_def)
  from t1 t2 have "?t \<in> {1, 2}" by auto
  then show ?thesis using eq by (simp add: self_log_def call_if_def emit_def)
qed

text \<open>
  Witness for claim C4: 8 loudspeakers asked for from output 16 of 16 leave a single one.
\<close>

theorem hf_invalid_span_witness:
  "output_hf_attenuation 16 (Num 16) (Num 8) (Num 8) fresh =
     fresh\<lparr>trace := [LogMsg Warn ''HF attenuation: invalid span (must be > 1)'']\<rparr>"
proof -
  have d: "M_cmdSendLine \<in> defined fresh" "M_log \<in> defined fresh" by (simp_all add: fresh_def)
  have st: "hf_start 16 (Num 16) = 16" by (simp add: hf_start_def Math_round_def)
  have t: "hf_total 16 16 (Num 8) = 1" by (simp add: hf_total_def Math_round_def)
  have sp: "hf_span (hf_total 16 (hf_start 16 (Num 16)) (Num 8)) \<le> 1"
    by (simp add: st t hf_span_small)
  have tr: "trace fresh = []" by (simp add: fresh_def)
  have "output_hf_attenuation 16 (Num 16) (Num 8) (Num 8) fresh =
           (if M_log \<in> defined fresh
            then fresh\<lparr>trace := trace fresh @ [LogMsg Warn ''HF attenuation: invalid span (must be > 1)'']\<rparr>
            else fresh)"
    using hf_invalid_span [OF d(1) sp, of "Num 8"] by blast
  then show ?thesis using d(2) tr by simp
qed

text \<open>
  Claim C8 at its failing input: \<open>input_eq_bypass\<close> with an empty selection, or with one
  that normalises to empty, returns without any log entry, where \<open>input_mute_control\<close> on
  the same selection logs the warning.
\<close>

theorem eq_bypass_empty_selection_no_warning:
  "input_eq_bypass 8 [] ''set'' ''true'' fresh = fresh
   \<and> input_eq_bypass 8 [Some 99, None] ''toggle'' ''true'' fresh = fresh
   \<and> mute_control Input 8 ''on'' [] fresh =
       fresh\<lparr>trace := [LogMsg Warn ''No valid input channels selected'']\<rparr>"
  by (simp add: input_eq_bypass_def mute_control_def safeGetChannels_def List.map_filter_def
      self_log_def call_if_def emit_def fresh_def domain_word_def)

text \<open>The actions that do check for an empty selection only log the warning.\<close>

lemma empty_selection_skipped:
  assumes "safeGetChannels chs N = []"
  shows "mute_control d N op chs s = self_log Warn (''No valid '' @ domain_word d @ '' channels selected'') s"
    and "solo d N op chs s = self_log Warn (''No valid '' @ domain_word d @ '' channels selected for solo'') s"
    and "opt_chs opts = chs \<Longrightarrow>
           gain_set d N opts btn s = self_log Warn (''No valid '' @ domain_word d @ '' channels selected'') s"
    and "input_delay_set N chs t v s = self_log Warn ''No valid input channels selected'' s"
    and "output_delay_set N chs t v s = self_log Warn ''No valid output channels selected'' s"
    and "matrix_delay_full N ins chs t v st s = self_log Warn ''No valid matrix channels selected'' s"
    and "M_cmdSendLine \<in> defined s \<Longrightarrow> uopt_chs uopts = chs \<Longrightarrow>
           input_ushaping_adjust N uopts s = self_log Warn ''No valid input channels selected'' s"
  using assms
  by (simp_all add: mute_control_def solo_def gain_set_def input_delay_set_def output_delay_set_def
      matrix_delay_full_def input_ushaping_adjust_def Let_def)

subsection \<open>Solo and mute\<close>

lemma muteOf_emit [simp]: "muteOf d (emit ev s) = muteOf d s"
  by (cases d) (simp_all add: emit_def muteOf_def)

lemma muteOf_call_if [simp]: "muteOf d (call_if m ev s) = muteOf d s"
  by (simp add: call_if_def)

lemma muteOf_self_log [simp]: "muteOf d (self_log lv msg s) = muteOf d s"
  by (simp add: self_log_def)

lemma soloStateOf_emit [simp]: "soloStateOf d (emit ev s) = soloStateOf d s"
  by (cases d) (simp_all add: emit_def soloStateOf_def)

lemma soloStateOf_call_if [simp]: "soloStateOf d (call_if m ev s) = soloStateOf d s"
  by (simp add: call_if_def)

lemma soloStateOf_self_log [simp]: "soloStateOf d (self_log lv msg s) = soloStateOf d s"
  by (simp add: self_log_def)

lemma muted_cong: "muteOf d s = muteOf d s' \<Longrightarrow> muted d s ch = muted d s' ch"
  by (simp add: muted_def)

lemma defined_setMute [simp]: "defined (setMute d c v s) = defined s"
  by (cases d) (simp_all add: setMute_def setMute_effect_def)

lemma soloStateOf_setMute [simp]: "soloStateOf d' (setMute d c v s) = soloStateOf d' s"
  by (cases d; cases d') (simp_all add: setMute_def setMute_effect_def soloStateOf_def emit_def)

lemma muted_setMute:
  "M_setMute \<in> defined s \<Longrightarrow> muted d (setMute d c v s) ch = (if ch = c then v else muted d s ch)"
  by (cases d) (simp_all add: setMute_def setMute_effect_def muted_def muteOf_def emit_def)

lemma defined_set_soloState [simp]: "defined (set_soloState d v s) = defined s"
  by (cases d) (simp_all add: set_soloState_def)

lemma muteOf_set_soloState [simp]: "muteOf d' (set_soloState d v s) = muteOf d' s"
  by (cases d; cases d') (simp_all add: set_soloState_def muteOf_def)

lemma soloStateOf_set_soloState [simp]: "soloStateOf d (set_soloState d v s) = v"
  by (cases d) (simp_all add: set_soloState_def soloStateOf_def)

lemma fold_apply_solo:
  "defined (fold (apply_solo_channel d soloSet) xs s) = defined s
   \<and> soloStateOf d (fold (apply_solo_channel d soloSet) xs s) = soloStateOf d s
   \<and> (M_setMute \<in> defined s \<longrightarrow> ch \<notin> set xs \<longrightarrow>
        muted d (fold (apply_solo_channel d soloSet) xs s) ch = muted d s ch)"
proof (induction xs arbitrary: s)
  case Nil
  then show ?case by simp
next
  case (Cons x xs)
  show ?case
    using Cons.IH [of "apply_solo_channel d soloSet x s"]
    by (simp add: apply_solo_channel_def muted_setMute)
qed

lemma fold_unsolo:
  "defined (fold (unsolo_channel d prev) xs s) = defined s
   \<and> (M_setMute \<in> defined s \<longrightarrow>
        muted d (fold (unsolo_channel d prev) xs s) ch =
          (if ch \<in> set xs then (case prev ch of None \<Rightarrow> False | Some b \<Rightarrow> b) else muted d s ch))"
proof (induction xs arbitrary: s)
  case Nil
  then show ?case by simp
next
  case (Cons x xs)
  show ?case
    using Cons.IH [of "unsolo_channel d prev x s"]
    by (simp add: unsolo_channel_def muted_setMute)
qed

lemma in_channel_range: "ch \<in> set [1..<N + 1] \<longleftrightarrow> 1 \<le> ch \<and> ch \<le> N"
  by auto

lemma solo_activate:
  assumes "M_setMute \<in> defined s"
    and "safeGetChannels chs N \<noteq> []"
    and "op = ''on'' \<or> (op \<noteq> ''off'' \<and> \<not> isSameSolo (soloStateOf d s) (dedup (safeGetChannels chs N)))"
  shows "defined (solo d N op chs s) = defined s"
    and "soloStateOf d (solo d N op chs s) =
           Some \<lparr>soloChannels = dedup (safeGetChannels chs N),
                 prevMute = (case soloStateOf d s of Some cur \<Rightarrow> prevMute cur
                             | None \<Rightarrow> mute_snapshot d N s)\<rparr>"
    and "\<not> (1 \<le> ch \<and> ch \<le> N) \<Longrightarrow> muted d (solo d N op chs s) ch = muted d s ch"
proof -
  let ?set = "dedup (safeGetChannels chs N)"
  let ?s1 = "fold (apply_solo_channel d ?set) [1..<N + 1] s"
  have app: "(if op = ''on'' then True else if op = ''off'' then False
               else \<not> isSameSolo (soloStateOf d s) ?set)"
    using assms(3) by auto
  have eq: "solo d N op chs s =
     call_if M_checkFeedbacks (CheckFeedbacks [domain_word d @ ''_muted'', domain_word d @ ''_soloed''])
       (self_log Info (''Soloed '' @ domain_word d @ '' channels'')
         (set_soloState d (Some \<lparr>soloChannels = ?set,
             prevMute = (case soloStateOf d s of Some cur \<Rightarrow> prevMute cur
                         | None \<Rightarrow> mute_snapshot d N s)\<rparr>) ?s1))"
    using assms(2) app by (simp add: solo_def Let_def del: upt_Suc split: if_splits)
  note f = fold_apply_solo [of d ?set "[1..<N + 1]" s ch]
  show "defined (solo d N op chs s) = defined s" using f by (simp add: eq)
  show "soloStateOf d (solo d N op chs s) =
           Some \<lparr>soloChannels = ?set,
                 prevMute = (case soloStateOf d s of Some cur \<Rightarrow> prevMute cur
                             | None \<Rightarrow> mute_snapshot d N s)\<rparr>"
    by (simp add: eq)
  assume "\<not> (1 \<le> ch \<and> ch \<le> N)"
  then have "ch \<notin> set [1..<N + 1]" by auto
  then have "muted d ?s1 ch = muted d s ch" using f assms(1) by blast
  moreover have "muted d (solo d N op chs s) ch = muted d ?s1 ch"
    by (rule muted_cong) (simp add: eq)
  ultimately show "muted d (solo d N op chs s) ch = muted d s ch" by simp
qed

lemma solo_deactivate:
  assumes "M_setMute \<in> defined s"
    and "safeGetChannels chs N \<noteq> []"
    and "op = ''off'' \<or> (op \<noteq> ''on'' \<and> isSameSolo (soloStateOf d s) (dedup (safeGetChannels chs N)))"
  shows "soloStateOf d (solo d N op chs s) = None"
    and "muted d (solo d N op chs s) ch =
           (if 1 \<le> ch \<and> ch \<le> N
            then (case (case soloStateOf d s of Some cur \<Rightarrow> prevMute cur | None \<Rightarrow> Map.empty) ch of
                    None \<Rightarrow> False | Some b \<Rightarrow> b)
            else muted d s ch)"
proof -
  let ?set = "dedup (safeGetChannels chs N)"
  let ?prev = "(case soloStateOf d s of Some cur \<Rightarrow> prevMute cur | None \<Rightarrow> Map.empty)"
  let ?s1 = "fold (unsolo_channel d ?prev) [1..<N + 1] s"
  have app: "\<not> (if op = ''on'' then True else if op = ''off'' then False
               else \<not> isSameSolo (soloStateOf d s) ?set)"
    using assms(3) by auto
  have eq: "solo d N op chs s =
     call_if M_checkFeedbacks (CheckFeedbacks [domain_word d @ ''_muted'', domain_word d @ ''_soloed''])
       (self_log Info ''Unsolo - restored previous mute states'' (set_soloState d None ?s1))"
    using assms(2) app by (simp add: solo_def Let_def del: upt_Suc split: if_splits)
  show "soloStateOf d (solo d N op chs s) = None" by (simp add: eq)
  have "muted d (solo d N op chs s) ch = muted d ?s1 ch"
    by (rule muted_cong) (simp add: eq)
  also have "\<dots> = (if ch \<in> set [1..<N + 1] then (case ?prev ch of None \<Rightarrow> False | Some b \<Rightarrow> b)
                    else muted d s ch)"
    using fold_unsolo [of d ?prev "[1..<N + 1]" s ch] assms(1) by blast
  finally show "muted d (solo d N op chs s) ch =
           (if 1 \<le> ch \<and> ch \<le> N then (case ?prev ch of None \<Rightarrow> False | Some b \<Rightarrow> b)
            else muted d s ch)"
    by (simp only: in_channel_range)
qed

lemma isSameSolo_iff:
  assumes "distinct xs" "distinct ys"
  shows "isSameSolo (Some \<lparr>soloChannels = xs, prevMute = p\<rparr>) ys \<longleftrightarrow> set ys = set xs"
proof
  assume "isSameSolo (Some \<lparr>soloChannels = xs, prevMute = p\<rparr>) ys"
  then have len: "length xs = length ys" and sub: "set ys \<subseteq> set xs"
    by (auto simp: isSameSolo_def list_all_iff)
  have "card (set ys) = card (set xs)"
    using len assms by (simp add: distinct_card)
  then show "set ys = set xs"
    using sub by (simp add: card_subset_eq)
next
  assume eq: "set ys = set xs"
  then have "length xs = length ys"
    using assms by (metis distinct_card)
  then show "isSameSolo (Some \<lparr>soloChannels = xs, prevMute = p\<rparr>) ys"
    using eq by (simp add: isSameSolo_def list_all_iff)
qed


text \<open>
  Claim C3: in either domain, on a module instance that can set mutes and has no solo
  active, a solo activation, a second activation with a different set and then an unsolo
  (operation off, or a toggle on the set that is soloed) leave every channel with the
  mute state it had before the first activation. The snapshot \<open>prevMute\<close> is the one
  taken at the first activation, the second activation keeps it, and the unsolo discards
  the solo state. A channel whose flag was never written reads as not muted.
\<close>

theorem solo_restores_mute:
  assumes "M_setMute \<in> defined s0"
    and "soloStateOf d s0 = None"
    and "safeGetChannels chs1 N \<noteq> []"
    and "safeGetChannels chs2 N \<noteq> []"
    and "safeGetChannels chs3 N \<noteq> []"
    and "set (safeGetChannels chs2 N) \<noteq> set (safeGetChannels chs1 N)"
    and "op1 \<noteq> ''off''"
    and "op2 \<noteq> ''off''"
    and "op3 = ''off'' \<or> (op3 \<noteq> ''on'' \<and> set (safeGetChannels chs3 N) = set (safeGetChannels chs2 N))"
  shows "muted d (solo d N op3 chs3 (solo d N op2 chs2 (solo d N op1 chs1 s0))) ch = muted d s0 ch
       \<and> map_option prevMute (soloStateOf d (solo d N op1 chs1 s0)) = Some (mute_snapshot d N s0)
       \<and> map_option prevMute (soloStateOf d (solo d N op2 chs2 (solo d N op1 chs1 s0))) =
           Some (mute_snapshot d N s0)
       \<and> soloStateOf d (solo d N op3 chs3 (solo d N op2 chs2 (solo d N op1 chs1 s0))) = None"
proof -
  let ?s1 = "solo d N op1 chs1 s0"
  let ?s2 = "solo d N op2 chs2 ?s1"
  let ?s3 = "solo d N op3 chs3 ?s2"
  let ?set1 = "dedup (safeGetChannels chs1 N)"
  let ?set2 = "dedup (safeGetChannels chs2 N)"
  let ?set3 = "dedup (safeGetChannels chs3 N)"
  have a1: "op1 = ''on'' \<or> (op1 \<noteq> ''off'' \<and> \<not> isSameSolo (soloStateOf d s0) ?set1)"
    using assms(2,7) by (simp add: isSameSolo_def)
  note st1 = solo_activate [OF assms(1) assms(3) a1]
  have solo1: "soloStateOf d ?s1 = Some \<lparr>soloChannels = ?set1, prevMute = mute_snapshot d N s0\<rparr>"
    using st1(2) assms(2) by simp
  have d1: "M_setMute \<in> defined ?s1" using st1(1) assms(1) by simp
  have "\<not> isSameSolo (soloStateOf d ?s1) ?set2"
    using assms(6) by (simp add: solo1 isSameSolo_iff distinct_dedup set_dedup)
  then have a2: "op2 = ''on'' \<or> (op2 \<noteq> ''off'' \<and> \<not> isSameSolo (soloStateOf d ?s1) ?set2)"
    using assms(8) by simp
  note st2 = solo_activate [OF d1 assms(4) a2]
  have solo2: "soloStateOf d ?s2 = Some \<lparr>soloChannels = ?set2, prevMute = mute_snapshot d N s0\<rparr>"
    using st2(2) by (simp add: solo1)
  have d2: "M_setMute \<in> defined ?s2" using st2(1) d1 by simp
  have a3: "op3 = ''off'' \<or> (op3 \<noteq> ''on'' \<and> isSameSolo (soloStateOf d ?s2) ?set3)"
    using assms(9) by (auto simp: solo2 isSameSolo_iff distinct_dedup set_dedup)
  note st3 = solo_deactivate [OF d2 assms(5) a3]
  have m: "muted d ?s3 ch = muted d s0 ch"
  proof (cases "1 \<le> ch \<and> ch \<le> N")
    case True
    then show ?thesis using st3(2) [of ch] by (simp add: solo2 mute_snapshot_def)
  next
    case False
    then have "muted d ?s3 ch = muted d ?s2 ch" using st3(2) [of ch] by auto
    also have "\<dots> = muted d ?s1 ch" by (rule st2(3) [OF False])
    also have "\<dots> = muted d s0 ch" by (rule st1(3) [OF False])
    finally show ?thesis .
  qed
  show ?thesis using m solo1 solo2 st3(1) by simp
qed

text \<open>
  Witness for claim C3: four outputs, output 2 muted; solo output 1, then output 3, then
  toggle output 3 again.
\<close>

theorem solo_restores_mute_witness:
  "muted Output
     (solo Output 4 ''toggle'' [Some 3] (solo Output 4 ''toggle'' [Some 3]
        (solo Output 4 ''toggle'' [Some 1] muted_example))) 2
   \<and> \<not> muted Output
     (solo Output 4 ''toggle'' [Some 3] (solo Output 4 ''toggle'' [Some 3]
        (solo Output 4 ''toggle'' [Some 1] muted_example))) 3"
proof -
  have a: "M_setMute \<in> defined muted_example" "soloStateOf Output muted_example = None"
    by (simp_all add: muted_example_def fresh_def soloStateOf_def)
  have c: "safeGetChannels [Some 1] 4 = [1]" "safeGetChannels [Some 3] 4 = [3]"
    by (simp_all add: safeGetChannels_def List.map_filter_def)
  have n: "safeGetChannels [Some 1] 4 \<noteq> []" "safeGetChannels [Some 3] 4 \<noteq> []"
    "set (safeGetChannels [Some 3] 4) \<noteq> set (safeGetChannels [Some 1] 4)"
    by (simp_all add: c)
  have o: "''toggle'' \<noteq> ''off''"
    "''toggle'' = ''off'' \<or> (''toggle'' \<noteq> ''on''
       \<and> set (safeGetChannels [Some 3] 4) = set (safeGetChannels [Some 3] 4))"
    by simp_all
  have m: "muted Output muted_example 2" "\<not> muted Output muted_example 3"
    by (simp_all add: muted_example_def fresh_def muted_def muteOf_def)
  show ?thesis
    using solo_restores_mute [OF a(1) a(2) n(1) n(2) n(2) n(3) o(1) o(1) o(2), of 2]
      solo_restores_mute [OF a(1) a(2) n(1) n(2) n(2) n(3) o(1) o(1) o(2), of 3] m
    by simp
qed

subsection \<open>HF attenuation\<close>

lemma band_at_update_band:
  "band_at (update_band c b0 f m) ch b = (if ch = c \<and> b = b0 then f (band_at m c b0) else band_at m ch b)"
  by (auto simp: band_at_def update_band_def Let_def split: option.splits)

lemma hf_assign_eq:
  "hf_assign c db s =
     s\<lparr>outputUShaping :=
          update_band c 5 (\<lambda>x. x\<lparr>gain := Some db\<rparr>)
            (update_band c 4 (\<lambda>x. x\<lparr>frequency := Some (Num 8000), slope := Some (Num 1)\<rparr>)
               (outputUShaping s)),
        trace := trace s @ hf_events (M_setVariableValues \<in> defined s) c db\<rparr>"
  by (simp add: hf_assign_def hf_events_def Let_def call_if_def emit_def)

lemma hf_assign_facts:
  "defined (hf_assign c db s) = defined s"
  "trace (hf_assign c db s) = trace s @ hf_events (M_setVariableValues \<in> defined s) c db"
  "band_at (outputUShaping (hf_assign c db s)) ch b =
     (if ch = c \<and> b = 4
      then (band_at (outputUShaping s) ch 4)\<lparr>frequency := Some (Num 8000), slope := Some (Num 1)\<rparr>
      else if ch = c \<and> b = 5 then (band_at (outputUShaping s) ch 5)\<lparr>gain := Some db\<rparr>
      else band_at (outputUShaping s) ch b)"
  "(hf_assign c db s)\<lparr>outputUShaping := m, trace := t\<rparr> = s\<lparr>outputUShaping := m, trace := t\<rparr>"
  by (simp_all add: hf_assign_eq band_at_update_band)

lemma hf_loop_no_break:
  "\<forall>i \<in> set xs. start + i \<le> NUM \<Longrightarrow>
   hf_loop NUM start sp p n xs (s, acc) =
     (fold (\<lambda>i. hf_assign (start + i) (hf_db sp p n i)) xs s,
      acc @ map (\<lambda>i. (start + i, hf_db sp p n i)) xs)"
  by (induction xs arbitrary: s acc) (simp_all add: Let_def hf_db_def)

lemma hf_fold_facts:
  assumes "distinct xs"
  shows "defined (fold (\<lambda>i. hf_assign (start + i) (db i)) xs s) = defined s"
    and "trace (fold (\<lambda>i. hf_assign (start + i) (db i)) xs s) =
           trace s @ concat (map (\<lambda>i. hf_events (M_setVariableValues \<in> defined s) (start + i) (db i)) xs)"
    and "(fold (\<lambda>i. hf_assign (start + i) (db i)) xs s)\<lparr>outputUShaping := m, trace := t\<rparr> =
           s\<lparr>outputUShaping := m, trace := t\<rparr>"
    and "band_at (outputUShaping (fold (\<lambda>i. hf_assign (start + i) (db i)) xs s)) ch b =
     (if (\<exists>i \<in> set xs. ch = start + i) \<and> b = 4
      then (band_at (outputUShaping s) ch 4)\<lparr>frequency := Some (Num 8000), slope := Some (Num 1)\<rparr>
      else if (\<exists>i \<in> set xs. ch = start + i) \<and> b = 5
      then (band_at (outputUShaping s) ch 5)\<lparr>gain := Some (db (ch - start))\<rparr>
      else band_at (outputUShaping s) ch b)"
  using assms
proof (induction xs arbitrary: s)
  case Nil
  { case 1 show ?case by simp }
  { case 2 show ?case by simp }
  { case 3 show ?case by simp }
  { case 4 show ?case by simp }
next
  case (Cons x xs)
  { case 1 then show ?case using Cons.IH(1) by (simp add: hf_assign_facts) }
  { case 2 then show ?case using Cons.IH(2) by (simp add: hf_assign_facts) }
  { case 3 then show ?case using Cons.IH(3) by (simp add: hf_assign_facts) }
  { case 4
    then have d: "distinct xs" "x \<notin> set xs" by auto
    show ?case
      using Cons.IH(4) [OF d(1), of "hf_assign (start + x) (db x) s"] d(2)
      by (auto simp: hf_assign_facts) }
qed


lemma hf_start_ge: "1 \<le> hf_start N start_opt"
  by (simp add: hf_start_def)

lemma hf_total_bounds:
  assumes "1 < hf_span (hf_total N start total_opt)"
  shows "3 \<le> hf_total N start total_opt" and "hf_total N start total_opt \<le> int N - start + 1"
proof -
  have "\<not> hf_total N start total_opt \<le> 2"
    using assms hf_span_small [of "hf_total N start total_opt"] by auto
  then show "3 \<le> hf_total N start total_opt" by simp
  then show "hf_total N start total_opt \<le> int N - start + 1"
    by (simp add: hf_total_def Let_def split: jsnum.splits)
qed

lemma ln_span_pos: "1 < spanN \<Longrightarrow> \<not> ln (real_of_int spanN) \<le> 0"
  by simp

text \<open>
  What a non-degenerate invocation does: the bands 4 and 5 of the affected channels are
  rewritten, the trace grows by the calls of each iteration and the final log entry, and
  every other field of the module instance keeps its value.
\<close>

lemma hf_attenuation_effect:
  fixes N :: nat and s :: self and start_opt total_opt ratio_opt :: jsnum
  defines "start \<equiv> hf_start N start_opt"
    and "totalN \<equiv> hf_total N (hf_start N start_opt) total_opt"
    and "swing \<equiv> max (1 / 10) (min 24 (finite_or ratio_opt 8))"
    and "s' \<equiv> output_hf_attenuation N start_opt total_opt ratio_opt s"
  assumes "M_cmdSendLine \<in> defined s"
    and "1 < hf_span (hf_total N (hf_start N start_opt) total_opt)"
  shows "band_at (outputUShaping s') ch b =
           (if start \<le> int ch \<and> int ch < start + totalN \<and> b = 4
            then (band_at (outputUShaping s) ch 4)\<lparr>frequency := Some (Num 8000), slope := Some (Num 1)\<rparr>
            else if start \<le> int ch \<and> int ch < start + totalN \<and> b = 5
            then (band_at (outputUShaping s) ch 5)
                   \<lparr>gain := Some (hf_db (hf_span totalN) (swing / 3) ((swing * 2) / 3) (ch - nat start))\<rparr>
            else band_at (outputUShaping s) ch b)
       \<and> trace s' =
           trace s
           @ concat (map (\<lambda>i. hf_events (M_setVariableValues \<in> defined s) (nat start + i)
                                 (hf_db (hf_span totalN) (swing / 3) ((swing * 2) / 3) i))
                       [0..<nat totalN])
           @ (if M_log \<in> defined s then [LogMsg Info ''HF attenuation from output''] else [])
       \<and> s'\<lparr>outputUShaping := m, trace := t\<rparr> = s\<lparr>outputUShaping := m, trace := t\<rparr>"
proof -
  let ?db = "hf_db (hf_span totalN) (swing / 3) ((swing * 2) / 3)"
  let ?f = "\<lambda>i. hf_assign (nat start + i) (?db i)"
  let ?xs = "[0..<nat totalN]"
  let ?s1 = "fold ?f ?xs s"
  have st: "1 \<le> start" unfolding start_def by (rule hf_start_ge)
  have tb: "3 \<le> totalN" "totalN \<le> int N - start + 1"
    using hf_total_bounds [OF assms(6)] by (simp_all add: totalN_def start_def)
  have inb: "\<forall>i \<in> set ?xs. nat start + i \<le> N"
    using st tb by auto
  have loop: "hf_loop N (nat start) (hf_span totalN) (swing / 3) ((swing * 2) / 3) ?xs (s, []) =
                (?s1, map (\<lambda>i. (nat start + i, ?db i)) ?xs)"
    using hf_loop_no_break [OF inb, of "hf_span totalN" "swing / 3" "(swing * 2) / 3" s "[]"] by simp
  have nonempty: "0 < length (map (\<lambda>i. (nat start + i, ?db i)) ?xs)"
    using tb(1) by simp
  have eq: "s' = self_log Info ''HF attenuation from output'' ?s1"
    unfolding s'_def output_hf_attenuation_def
    using assms(5) ln_span_pos [OF assms(6)] loop nonempty
    by (simp add: Let_def start_def totalN_def swing_def del: upt_Suc length_map)
  note ff = hf_fold_facts [where xs = ?xs and start = "nat start" and db = ?db and s = s,
      OF distinct_upt]
  have aff: "(\<exists>i \<in> set ?xs. ch = nat start + i) \<longleftrightarrow> start \<le> int ch \<and> int ch < start + totalN"
  proof
    assume "\<exists>i \<in> set ?xs. ch = nat start + i"
    then show "start \<le> int ch \<and> int ch < start + totalN" using st by auto
  next
    assume a: "start \<le> int ch \<and> int ch < start + totalN"
    then have "ch - nat start \<in> set ?xs" "ch = nat start + (ch - nat start)" using st by auto
    then show "\<exists>i \<in> set ?xs. ch = nat start + i" by blast
  qed
  have b1: "band_at (outputUShaping s') ch b = band_at (outputUShaping ?s1) ch b"
    by (simp add: eq self_log_def call_if_def emit_def)
  have t1: "trace s' = trace ?s1 @ (if M_log \<in> defined s then [LogMsg Info ''HF attenuation from output''] else [])"
    using ff(1) by (simp add: eq self_log_def call_if_def emit_def)
  have r1: "s'\<lparr>outputUShaping := m, trace := t\<rparr> = ?s1\<lparr>outputUShaping := m, trace := t\<rparr>"
    by (simp add: eq self_log_def call_if_def emit_def)
  show ?thesis
    unfolding b1 t1 r1 ff(2) ff(3) ff(4) aff by simp
qed

lemma ln4: "ln (4::real) = 2 * ln 2"
  using ln_realpow [of "2::real" 2] by simp

lemma ln4_pos: "0 < ln (4::real)"
  by simp

lemma ln2_over_ln4: "ln (2::real) / ln 4 = 1 / 2"
  by (simp add: ln4)

lemma ln3_over_ln4_lower: "11 / 14 \<le> ln (3::real) / ln 4"
proof -
  have "(4::real) ^ 11 \<le> 3 ^ 14" by simp
  then have "ln ((4::real) ^ 11) \<le> ln (3 ^ 14)" by (subst ln_le_cancel_iff) simp_all
  moreover have "ln ((4::real) ^ 11) = real 11 * ln 4" by (rule ln_realpow)
  moreover have "ln ((3::real) ^ 14) = real 14 * ln 3" by (rule ln_realpow)
  ultimately have "real 11 * ln (4::real) \<le> real 14 * ln 3" by (simp only:)
  then show ?thesis using ln4_pos by (simp add: field_simps)
qed

lemma ln3_over_ln4_upper: "ln (3::real) / ln 4 \<le> 23 / 29"
proof -
  have "(3::real) ^ 29 \<le> 4 ^ 23" by simp
  then have "ln ((3::real) ^ 29) \<le> ln (4 ^ 23)" by (subst ln_le_cancel_iff) simp_all
  moreover have "ln ((4::real) ^ 23) = real 23 * ln 4" by (rule ln_realpow)
  moreover have "ln ((3::real) ^ 29) = real 29 * ln 3" by (rule ln_realpow)
  ultimately have "real 29 * ln (3::real) \<le> real 23 * ln 4" by (simp only:)
  then show ?thesis using ln4_pos by (simp add: field_simps)
qed

lemma round_pos3:
  fixes t :: real
  assumes "11 / 14 \<le> t" "t \<le> 23 / 29"
  shows "Math_round (8 / 3 * (1 - t) * 10) = 6"
  unfolding Math_round_def
proof (rule floor_unique)
  show "real_of_int 6 \<le> 8 / 3 * (1 - t) * 10 + 1 / 2" using assms by (simp add: field_simps)
  show "8 / 3 * (1 - t) * 10 + 1 / 2 < real_of_int 6 + 1" using assms by (simp add: field_simps)
qed

lemma round_pos6:
  fixes t :: real
  assumes "11 / 14 \<le> t" "t \<le> 23 / 29"
  shows "Math_round (- (16 / 3) * (1 - t) * 10) = - 11"
  unfolding Math_round_def
proof (rule floor_unique)
  show "real_of_int (- 11) \<le> - (16 / 3) * (1 - t) * 10 + 1 / 2" using assms by (simp add: field_simps)
  show "- (16 / 3) * (1 - t) * 10 + 1 / 2 < real_of_int (- 11) + 1" using assms by (simp add: field_simps)
qed



lemma hf_rawDb_first_half:
  assumes "1 < spanN" "boxIndex \<le> spanN"
  shows "hf_rawDb spanN p n boxIndex =
           Num (p * (1 - ln (real_of_int boxIndex) / ln (real_of_int spanN)))"
proof -
  have "ln (real_of_int spanN) \<noteq> 0" using assms(1) by simp
  then show ?thesis using assms(2) by (simp add: hf_rawDb_def js_div_def Let_def)
qed

lemma hf_rawDb_second_half:
  assumes "1 < spanN" "\<not> boxIndex \<le> spanN"
  shows "hf_rawDb spanN p n boxIndex =
           Num (- n * ((ln (real_of_int spanN) - ln (real_of_int (max 1 (2 * spanN - boxIndex + 1))))
                       / ln (real_of_int spanN)))"
proof -
  have "ln (real_of_int spanN) \<noteq> 0" using assms(1) by simp
  then show ?thesis using assms(2) by (simp add: hf_rawDb_def js_div_def Let_def)
qed

lemma hf_db_8_8:
  "hf_db 4 (8 / 3) (16 / 3) 0 = Num (27 / 10)"
  "hf_db 4 (8 / 3) (16 / 3) 1 = Num (13 / 10)"
  "hf_db 4 (8 / 3) (16 / 3) 2 = Num (6 / 10)"
  "hf_db 4 (8 / 3) (16 / 3) 3 = Num 0"
  "hf_db 4 (8 / 3) (16 / 3) 4 = Num 0"
  "hf_db 4 (8 / 3) (16 / 3) 5 = Num (- 11 / 10)"
  "hf_db 4 (8 / 3) (16 / 3) 6 = Num (- 27 / 10)"
  "hf_db 4 (8 / 3) (16 / 3) 7 = Num (- 53 / 10)"
proof -
  note b = ln3_over_ln4_lower ln3_over_ln4_upper
  have r3: "Math_round (8 / 3 * (1 - ln 3 / ln 4) * 10) = 6" by (rule round_pos3 [OF b])
  have r6: "Math_round (- (16 / 3) * ((ln 4 - ln 3) / ln 4) * 10) = - 11"
  proof -
    have "(ln 4 - ln 3) / ln 4 = 1 - ln 3 / ln (4::real)" using ln4_pos by (simp add: field_simps)
    then show ?thesis using round_pos6 [OF b] by simp
  qed
  have r7: "(ln 4 - ln 2) / ln 4 = (1::real) / 2" using ln4_pos by (simp add: ln4)
  show "hf_db 4 (8 / 3) (16 / 3) 0 = Num (27 / 10)"
    by (simp add: hf_db_def hf_rawDb_first_half Math_round_def)
  show "hf_db 4 (8 / 3) (16 / 3) 1 = Num (13 / 10)"
    by (simp add: hf_db_def hf_rawDb_first_half ln2_over_ln4 Math_round_def)
  have "hf_db 4 (8 / 3) (16 / 3) 2 =
          Num (real_of_int (Math_round (8 / 3 * (1 - ln 3 / ln 4) * 10)) / 10)"
    by (simp add: hf_db_def hf_rawDb_first_half)
  then show "hf_db 4 (8 / 3) (16 / 3) 2 = Num (6 / 10)"
    by (simp only: r3) simp
  show "hf_db 4 (8 / 3) (16 / 3) 3 = Num 0"
    by (simp add: hf_db_def hf_rawDb_first_half Math_round_def)
  show "hf_db 4 (8 / 3) (16 / 3) 4 = Num 0"
    by (simp add: hf_db_def hf_rawDb_second_half Math_round_def)
  have "hf_db 4 (8 / 3) (16 / 3) 5 =
          Num (real_of_int (Math_round (- (16 / 3) * ((ln 4 - ln 3) / ln 4) * 10)) / 10)"
    by (simp add: hf_db_def hf_rawDb_second_half)
  then show "hf_db 4 (8 / 3) (16 / 3) 5 = Num (- 11 / 10)"
    by (simp only: r6) simp
  show "hf_db 4 (8 / 3) (16 / 3) 6 = Num (- 27 / 10)"
    by (simp add: hf_db_def hf_rawDb_second_half r7 Math_round_def)
  show "hf_db 4 (8 / 3) (16 / 3) 7 = Num (- 53 / 10)"
    by (simp add: hf_db_def hf_rawDb_second_half Math_round_def)
qed

lemma hf_events_in_trace:
  assumes "i \<in> set xs"
  shows "set (hf_events v (f i) (g i)) \<subseteq> set (ys @ concat (map (\<lambda>i. hf_events v (f i) (g i)) xs) @ zs)"
  using assms by auto

text \<open>
  Claim C10: on a non-degenerate invocation (span greater than 1) with a module instance
  that has \<open>_cmdSendLine\<close>, every affected output channel \<open>ch\<close> (from the start output
  over the clamped number of loudspeakers) has U-Shaping band 4 frequency 8000 and band 4
  slope 1 in the local store, and both commands are in the trace. The other fields of
  band 4 and of band 5 (all but the band 5 gain), the other bands, and every field of the
  module instance other than the U-Shaping store and the trace are as before. The trace
  grows by exactly this: for each affected channel in order the band 4 frequency, band 4
  slope and band 5 gain commands and, when \<open>setVariableValues\<close> is there, one variable
  update; then the log entry. No other command is sent.
\<close>

theorem hf_sets_band4:
  fixes N :: nat and s :: self and start_opt total_opt ratio_opt :: jsnum
  defines "start \<equiv> hf_start N start_opt"
    and "totalN \<equiv> hf_total N (hf_start N start_opt) total_opt"
    and "s' \<equiv> output_hf_attenuation N start_opt total_opt ratio_opt s"
  assumes "M_cmdSendLine \<in> defined s"
    and "1 < hf_span (hf_total N (hf_start N start_opt) total_opt)"
    and "start \<le> int ch" and "int ch < start + totalN"
  shows "frequency (band_at (outputUShaping s') ch 4) = Some (Num 8000)
       \<and> slope (band_at (outputUShaping s') ch 4) = Some (Num 1)
       \<and> CmdSendLine (ushaping_path Output ch 4 ''frequency'') (VNum (Num 8000)) \<in> set (trace s')
       \<and> CmdSendLine (ushaping_path Output ch 4 ''slope'') (VNum (Num 1)) \<in> set (trace s')
       \<and> gain (band_at (outputUShaping s') ch 4) = gain (band_at (outputUShaping s) ch 4)
       \<and> band_bypass (band_at (outputUShaping s') ch 4) = band_bypass (band_at (outputUShaping s) ch 4)
       \<and> frequency (band_at (outputUShaping s') ch 5) = frequency (band_at (outputUShaping s) ch 5)
       \<and> slope (band_at (outputUShaping s') ch 5) = slope (band_at (outputUShaping s) ch 5)
       \<and> band_bypass (band_at (outputUShaping s') ch 5) = band_bypass (band_at (outputUShaping s) ch 5)
       \<and> (b \<noteq> 4 \<and> b \<noteq> 5 \<longrightarrow> band_at (outputUShaping s') ch b = band_at (outputUShaping s) ch b)
       \<and> s'\<lparr>outputUShaping := m, trace := t\<rparr> = s\<lparr>outputUShaping := m, trace := t\<rparr>
       \<and> trace s' =
           trace s
           @ concat (map (\<lambda>i. hf_events (M_setVariableValues \<in> defined s) (nat start + i)
                                 (hf_db (hf_span totalN)
                                    (max (1 / 10) (min 24 (finite_or ratio_opt 8)) / 3)
                                    (max (1 / 10) (min 24 (finite_or ratio_opt 8)) * 2 / 3) i))
                       [0..<nat totalN])
           @ (if M_log \<in> defined s then [LogMsg Info ''HF attenuation from output''] else [])"
proof -
  note e = hf_attenuation_effect [OF assms(4,5), of ratio_opt, folded start_def totalN_def s'_def]
  have st: "1 \<le> start" unfolding start_def by (rule hf_start_ge)
  have i: "ch - nat start \<in> set [0..<nat totalN]" "nat start + (ch - nat start) = ch"
    using assms(6,7) st by auto
  let ?v = "M_setVariableValues \<in> defined s"
  let ?db = "hf_db (hf_span totalN) (max (1 / 10) (min 24 (finite_or ratio_opt 8)) / 3)
     (max (1 / 10) (min 24 (finite_or ratio_opt 8)) * 2 / 3)"
  have tr: "trace s' = trace s
           @ concat (map (\<lambda>i. hf_events ?v (nat start + i) (?db i)) [0..<nat totalN])
           @ (if M_log \<in> defined s then [LogMsg Info ''HF attenuation from output''] else [])"
    using e by blast
  have "set (hf_events ?v (nat start + (ch - nat start)) (?db (ch - nat start))) \<subseteq> set (trace s')"
    unfolding tr by (rule hf_events_in_trace [OF i(1)])
  then have cmds: "CmdSendLine (ushaping_path Output ch 4 ''frequency'') (VNum (Num 8000)) \<in> set (trace s')"
    "CmdSendLine (ushaping_path Output ch 4 ''slope'') (VNum (Num 1)) \<in> set (trace s')"
    unfolding i(2) by (auto simp: hf_events_def)
  have bands: "band_at (outputUShaping s') ch b' =
           (if b' = 4
            then (band_at (outputUShaping s) ch 4)\<lparr>frequency := Some (Num 8000), slope := Some (Num 1)\<rparr>
            else if b' = 5
            then (band_at (outputUShaping s) ch 5)\<lparr>gain := Some (?db (ch - nat start))\<rparr>
            else band_at (outputUShaping s) ch b')" for b'
    using e [of ch b'] assms(6,7) by simp
  have rest: "s'\<lparr>outputUShaping := m, trace := t\<rparr> = s\<lparr>outputUShaping := m, trace := t\<rparr>"
    using e by blast
  have stored: "frequency (band_at (outputUShaping s') ch 4) = Some (Num 8000)
       \<and> slope (band_at (outputUShaping s') ch 4) = Some (Num 1)
       \<and> CmdSendLine (ushaping_path Output ch 4 ''frequency'') (VNum (Num 8000)) \<in> set (trace s')
       \<and> CmdSendLine (ushaping_path Output ch 4 ''slope'') (VNum (Num 1)) \<in> set (trace s')
       \<and> gain (band_at (outputUShaping s') ch 4) = gain (band_at (outputUShaping s) ch 4)
       \<and> band_bypass (band_at (outputUShaping s') ch 4) = band_bypass (band_at (outputUShaping s) ch 4)
       \<and> frequency (band_at (outputUShaping s') ch 5) = frequency (band_at (outputUShaping s) ch 5)
       \<and> slope (band_at (outputUShaping s') ch 5) = slope (band_at (outputUShaping s) ch 5)
       \<and> band_bypass (band_at (outputUShaping s') ch 5) = band_bypass (band_at (outputUShaping s) ch 5)
       \<and> (b \<noteq> 4 \<and> b \<noteq> 5 \<longrightarrow> band_at (outputUShaping s') ch b = band_at (outputUShaping s) ch b)
       \<and> s'\<lparr>outputUShaping := m, trace := t\<rparr> = s\<lparr>outputUShaping := m, trace := t\<rparr>"
    using cmds rest by (simp add: bands)
  show ?thesis using stored tr by blast
qed

lemma hf_start_nat: "1 \<le> start \<Longrightarrow> start \<le> N \<Longrightarrow> hf_start N (Num (real start)) = int start"
proof -
  assume a: "1 \<le> start" "start \<le> N"
  have "\<lfloor>real start + 1 / 2\<rfloor> = int start" by (rule floor_unique) simp_all
  then show ?thesis using a by (simp add: hf_start_def Math_round_def)
qed

text \<open>
  Claim C1: with 8 loudspeakers and a span of 8 dB from a start output that leaves room
  for all 8, the band 5 gains stored for positions 1 to 8 are 2.7, 1.3, 0.6, 0, 0, -1.1,
  -2.7 and -5.3 dB: +8/3 rounded at position 1, -16/3 rounded at position 8, and never
  increasing in between. Numbers are exact reals here, not doubles.
\<close>

theorem hf_curve_8_8:
  fixes N start :: nat and s :: self
  defines "s' \<equiv> output_hf_attenuation N (Num (real start)) (Num 8) (Num 8) s"
  assumes "M_cmdSendLine \<in> defined s" and "1 \<le> start" and "start + 7 \<le> N"
  shows "gain (band_at (outputUShaping s') start 5) = Some (Num (27 / 10))
       \<and> gain (band_at (outputUShaping s') (start + 1) 5) = Some (Num (13 / 10))
       \<and> gain (band_at (outputUShaping s') (start + 2) 5) = Some (Num (6 / 10))
       \<and> gain (band_at (outputUShaping s') (start + 3) 5) = Some (Num 0)
       \<and> gain (band_at (outputUShaping s') (start + 4) 5) = Some (Num 0)
       \<and> gain (band_at (outputUShaping s') (start + 5) 5) = Some (Num (- 11 / 10))
       \<and> gain (band_at (outputUShaping s') (start + 6) 5) = Some (Num (- 27 / 10))
       \<and> gain (band_at (outputUShaping s') (start + 7) 5) = Some (Num (- 53 / 10))
       \<and> sorted_wrt (\<ge>) [27 / 10, 13 / 10, 6 / 10, 0, 0, - 11 / 10, - 27 / 10, - 53 / (10::real)]"
proof -
  have st: "hf_start N (Num (real start)) = int start"
    using assms(3,4) by (simp add: hf_start_nat)
  have tot: "hf_total N (int start) (Num 8) = 8"
    using assms(4) by (simp add: hf_total_def Math_round_def)
  have sp: "hf_span 8 = 4"
    by (simp add: hf_span_def Math_ceil_def)
  have nd: "1 < hf_span (hf_total N (hf_start N (Num (real start))) (Num 8))"
    by (simp add: st tot sp)
  note e = hf_attenuation_effect [OF assms(2) nd, of "Num 8", folded s'_def, unfolded st tot sp]
  have g: "k < 8 \<Longrightarrow> gain (band_at (outputUShaping s') (start + k) 5) =
             Some (hf_db 4 (8 / 3) (16 / 3) k)" for k
    using e [of "start + k" 5] by simp
  show ?thesis
    using g [of 0, unfolded hf_db_8_8] g [of 1, unfolded hf_db_8_8] g [of 2, unfolded hf_db_8_8]
      g [of 3, unfolded hf_db_8_8] g [of 4, unfolded hf_db_8_8] g [of 5, unfolded hf_db_8_8]
      g [of 6, unfolded hf_db_8_8] g [of 7, unfolded hf_db_8_8]
    by simp
qed

text \<open>Witness for claim C1: 16 outputs, start output 1, positions 1 and 8.\<close>

theorem hf_curve_8_8_witness:
  "gain (band_at (outputUShaping (output_hf_attenuation 16 (Num 1) (Num 8) (Num 8) fresh)) 1 5)
     = Some (Num (27 / 10))
   \<and> gain (band_at (outputUShaping (output_hf_attenuation 16 (Num 1) (Num 8) (Num 8) fresh)) 8 5)
     = Some (Num (- 53 / 10))"
proof -
  have a: "M_cmdSendLine \<in> defined fresh" by (simp add: fresh_def)
  have b: "(1::nat) \<le> 1" "(1::nat) + 7 \<le> 16" by simp_all
  show ?thesis using hf_curve_8_8 [OF a b] by simp
qed

text \<open>Witness for claim C10: 16 outputs, start output 1, 8 loudspeakers; output 3.\<close>

theorem hf_sets_band4_witness:
  "frequency (band_at (outputUShaping (output_hf_attenuation 16 (Num 1) (Num 8) (Num 8) fresh)) 3 4)
     = Some (Num 8000)
   \<and> slope (band_at (outputUShaping (output_hf_attenuation 16 (Num 1) (Num 8) (Num 8) fresh)) 3 4)
     = Some (Num 1)
   \<and> band_at (outputUShaping (output_hf_attenuation 16 (Num 1) (Num 8) (Num 8) fresh)) 3 2
     = empty_band"
proof -
  have a: "M_cmdSendLine \<in> defined fresh" by (simp add: fresh_def)
  have st: "hf_start 16 (Num 1) = 1" by (simp add: hf_start_def Math_round_def)
  have tot: "hf_total 16 1 (Num 8) = 8" by (simp add: hf_total_def Math_round_def)
  have sp: "hf_span 8 = 4" by (simp add: hf_span_def Math_ceil_def)
  have nd: "1 < hf_span (hf_total 16 (hf_start 16 (Num 1)) (Num 8))" by (simp add: st tot sp)
  have r: "hf_start 16 (Num 1) \<le> int 3"
     "int 3 < hf_start 16 (Num 1) + hf_total 16 (hf_start 16 (Num 1)) (Num 8)"
    by (simp_all add: st tot)
  have f: "band_at (outputUShaping fresh) 3 2 = empty_band"
    by (simp add: fresh_def band_at_def)
  show ?thesis using hf_sets_band4 [OF a nd r, of "Num 8" 2] f by simp
qed

subsection \<open>Rotary acceleration\<close>

text \<open>One run of the acceleration block: the tier it returns and what it stores.\<close>

lemma rotary_accel_tier:
  "fst (rotary_accel now k s) =
     (case rotaryAccel s k of
        None \<Rightarrow> if now < 100 then 1 else 0
      | Some r \<Rightarrow> if now - time r < 100 then min (count r + 1) 3 else 0)"
  "rotaryAccel (snd (rotary_accel now k s)) =
     (rotaryAccel s)(k \<mapsto> \<lparr>time = now, count = fst (rotary_accel now k s)\<rparr>)"
  by (simp_all add: rotary_accel_def Let_def split: option.splits)

lemma rotary_accel_bounds:
  assumes "\<forall>k r. rotaryAccel s k = Some r \<longrightarrow> 0 \<le> count r \<and> count r \<le> 3"
  shows "0 \<le> fst (rotary_accel now key s) \<and> fst (rotary_accel now key s) \<le> 3"
    and "\<forall>k r. rotaryAccel (snd (rotary_accel now key s)) k = Some r \<longrightarrow> 0 \<le> count r \<and> count r \<le> 3"
proof -
  show t: "0 \<le> fst (rotary_accel now key s) \<and> fst (rotary_accel now key s) \<le> 3"
    using assms by (auto simp: rotary_accel_tier(1) split: option.splits)
  show "\<forall>k r. rotaryAccel (snd (rotary_accel now key s)) k = Some r \<longrightarrow> 0 \<le> count r \<and> count r \<le> 3"
    using assms t by (auto simp: rotary_accel_tier(2))
qed

lemma linked_facts:
  "M_cmdSendLine \<in> defined linked_example"
  "knob_chs Input linked_example = [1, 2]"
  "knob_band Input linked_example = 1"
  "rotaryAccel linked_example = Map.empty"
  "inputUShaping linked_example = Map.empty"
  by (simp_all add: linked_example_def fresh_def knob_chs_def knob_band_def knobControlOf_def)

text \<open>
  Claim C5 at its failing input. Inputs 1 and 2 are selected together and one rotation
  event arrives on surface \<open>s1\<close> with no earlier event on record, so the gap is far above
  100 ms. The frequency knob runs the acceleration block once per selected channel: the
  second run sees a gap of 0 ms and stores tier 1, and the two linked channels move by
  different steps (62 Hz to 63 Hz and to 64 Hz). The gain knob, which runs the block once
  per event, stores tier 0 on the same event.
\<close>

theorem knob_frequency_linked_channels:
  "rotaryAccel (ushaping_knob_frequency Input (\<lambda>k. 1000000) (Some ''s1'') (Num 10) linked_example)
     ''ushaping_freq_s1'' = Some \<lparr>time = 1000000, count = 1\<rparr>
   \<and> frequency (band_at (inputUShaping
        (ushaping_knob_frequency Input (\<lambda>k. 1000000) (Some ''s1'') (Num 10) linked_example)) 1 1)
       = Some (Num 63)
   \<and> frequency (band_at (inputUShaping
        (ushaping_knob_frequency Input (\<lambda>k. 1000000) (Some ''s1'') (Num 10) linked_example)) 2 1)
       = Some (Num 64)
   \<and> rotaryAccel (input_ushaping_knob_gain 1000000 (Some ''s1'') (Num (1 / 2)) linked_example)
       ''ushaping_gain_s1'' = Some \<lparr>time = 1000000, count = 0\<rparr>"
  by (simp add: ushaping_knob_frequency_def input_ushaping_knob_gain_def linked_facts
      knob_frequency_channel_def knob_gain_channel_def freqRange_def stored_or_def band_at_def
      rotary_accel_def accel_key_def octaveTiers_def tier_at_def num_of_def Let_def
      ushapingOf_def set_ushaping_def update_band_def call_if_def emit_def self_log_def
      empty_band_def linked_example_def fresh_def knob_chs_def knob_band_def knobControlOf_def)


subsection \<open>Clamping before storing\<close>

lemma fresh_knob_facts:
  "defined fresh = UNIV"
  "trace fresh = []"
  "knob_chs Input fresh = [1]"
  "knob_band Input fresh = 1"
  "inputUShaping fresh = Map.empty"
  by (simp_all add: fresh_def knob_chs_def knob_band_def knobControlOf_def)

lemma slopeValues_length: "length slopeValues = 8"
  by (simp add: slopeValues_def)

lemma closest_index_12: "closest_index (Num 12) = 1"
  by (simp add: closest_index_def slopeValues_def eval_nat_numeral)

lemma js_clamp_bounds: "lo \<le> hi \<Longrightarrow> js_clamp lo hi x = Num v \<Longrightarrow> lo \<le> v \<and> v \<le> hi"
  by (cases x) auto

lemma band_at_set_ushaping:
  "band_at (ushapingOf d (set_ushaping d (update_band ch b f m) s)) ch b = f (band_at m ch b)"
  by (cases d) (simp_all add: ushapingOf_def set_ushaping_def band_at_def update_band_def Let_def
      split: option.splits)

lemma ushapingOf_trace [simp]:
  "ushapingOf d (emit ev s) = ushapingOf d s"
  "ushapingOf d (call_if m ev s) = ushapingOf d s"
  "ushapingOf d (self_log lv msg s) = ushapingOf d s"
  by (cases d; simp add: ushapingOf_def emit_def call_if_def self_log_def)+

lemma knob_gain_channel_stored:
  "gain (band_at (ushapingOf d (knob_gain_channel d b delta ch s)) ch b) =
     Some (js_clamp (-15) 15 (js_add (stored_or (gain (band_at (ushapingOf d s) ch b)) 0) delta))"
  by (simp add: knob_gain_channel_def Let_def band_at_set_ushaping)

lemma ushapingOf_rotary_accel [simp]: "ushapingOf d (snd (rotary_accel now k s)) = ushapingOf d s"
  by (cases d) (simp_all add: rotary_accel_def Let_def ushapingOf_def)

lemma knob_frequency_channel_stored:
  "\<exists>x. frequency (band_at (ushapingOf d (knob_frequency_channel d b dl sid now ch s)) ch b) =
     Some (js_clamp (fst (freqRange b)) (fst (snd (freqRange b))) x)"
  by (cases "freqRange b"; cases sid)
     (auto simp: knob_frequency_channel_def Let_def band_at_set_ushaping split: prod.splits)

lemma freqRange_ordered: "fst (freqRange b) \<le> fst (snd (freqRange b))"
  by (simp add: freqRange_def)

lemma knob_slope_channel_stored:
  "slope (band_at (ushapingOf d (knob_slope_channel d b dir n ch s)) ch b) = Some (Num v)
   \<Longrightarrow> v \<in> set slopeValues"
proof -
  assume a: "slope (band_at (ushapingOf d (knob_slope_channel d b dir n ch s)) ch b) = Some (Num v)"
  let ?ci = "closest_index (stored_or (slope (band_at (ushapingOf d s) ch b)) 12)"
  from a obtain k where k: "n = Some k"
    and v: "v = slopeValues ! (if dir = ''up'' then (?ci + k) mod length slopeValues
                               else nat ((int ?ci - int k + int (length slopeValues))
                                         mod int (length slopeValues)))"
    by (auto simp: knob_slope_channel_def Let_def band_at_set_ushaping split: option.splits if_splits)
  have "(if dir = ''up'' then (?ci + k) mod length slopeValues
         else nat ((int ?ci - int k + int (length slopeValues)) mod int (length slopeValues)))
        < length slopeValues"
    unfolding slopeValues_length by (simp add: nat_less_iff)
  then show ?thesis unfolding v by (rule nth_mem)
qed

lemma ushaping_finalValue_slope_bounds:
  "uopt_param opts = ''slope'' \<Longrightarrow> ushaping_finalValue opts ch s = Some (Num v)
   \<Longrightarrow> 1 / 10 \<le> v \<and> v \<le> 2"
  using js_clamp_bounds [of "1 / 10" 2 _ v]
  by (auto simp: ushaping_finalValue_def Let_def split: if_splits)

text \<open>
  What \<open>input_ushaping_adjust\<close> sends and hands over for one channel is the clamped value
  and nothing else.
\<close>

lemma ushaping_adjust_channel_trace:
  "trace (ushaping_adjust_channel opts ch s) =
     trace s
     @ [CmdSendLine (ushaping_path Input ch (uopt_band opts) (uopt_param opts))
          (case ushaping_finalValue opts ch s of None \<Rightarrow> VUndefined | Some v \<Rightarrow> VNum v)]
     @ (if M_applyUShaping Input \<in> defined s
        then [ApplyUShaping Input ch (uopt_band opts) (uopt_param opts)
                (case ushaping_finalValue opts ch s of None \<Rightarrow> VUndefined | Some v \<Rightarrow> VNum v)]
        else [])
     @ (if M_log \<in> defined s then [LogMsg Info ''Input ch: U-Shaping band''] else [])"
  by (simp add: ushaping_adjust_channel_def Let_def call_if_def emit_def self_log_def)

lemma fresh_output_facts:
  "knob_chs Output fresh = [1]"
  "knob_band Output fresh = 1"
  "outputUShaping fresh = Map.empty"
  by (simp_all add: fresh_def knob_chs_def knob_band_def knobControlOf_def)

lemma slope_knob_input_fresh:
  "slope (band_at (inputUShaping (ushaping_knob_slope Input 0 None ''up'' fresh)) 1 1) = Some (Num 18)"
  "trace (ushaping_knob_slope Input 0 None ''up'' fresh) =
     [CmdSendLine (ushaping_path Input 1 1 ''slope'') (VNum (Num 18)),
      ApplyUShaping Input 1 1 ''slope'' (VNum (Num 18)),
      SetVariableValues [(ushaping_var Input 1 1 ''slope'', VRounded (Num 18))],
      LogMsg Info ''U-Shaping: slope'',
      UpdateUShapingCurrentValues Input]"
  by (simp_all add: ushaping_knob_slope_def fresh_knob_facts knob_slope_channel_def stored_or_def
      band_at_def closest_index_12 slopeValues_def Let_def ushapingOf_def set_ushaping_def
      update_band_def call_if_def emit_def self_log_def empty_band_def)

lemma slope_knob_output_fresh:
  "slope (band_at (outputUShaping (ushaping_knob_slope Output 0 None ''up'' fresh)) 1 1) = Some (Num 18)"
  by (simp add: ushaping_knob_slope_def fresh_knob_facts fresh_output_facts knob_slope_channel_def
      stored_or_def band_at_def closest_index_12 slopeValues_def Let_def ushapingOf_def
      set_ushaping_def update_band_def call_if_def emit_def self_log_def empty_band_def)

lemma adjust_set_18_fresh:
  "trace (input_ushaping_adjust 8 slope_18_opts fresh) =
     [CmdSendLine (ushaping_path Input 1 1 ''slope'') (VNum (Num 2)),
      ApplyUShaping Input 1 1 ''slope'' (VNum (Num 2)),
      LogMsg Info ''Input ch: U-Shaping band'']"
  by (simp add: input_ushaping_adjust_def safeGetChannels_def List.map_filter_def
      ushaping_adjust_channel_trace ushaping_finalValue_def slope_18_opts_def fresh_knob_facts)

lemma hf_slope_fresh:
  "slope (band_at (outputUShaping (output_hf_attenuation 16 (Num 1) (Num 8) (Num 8) fresh)) 1 4)
     = Some (Num 1)"
proof -
  have a: "M_cmdSendLine \<in> defined fresh" by (simp add: fresh_def)
  have st: "hf_start 16 (Num 1) = 1" by (simp add: hf_start_def Math_round_def)
  have tot: "hf_total 16 1 (Num 8) = 8" by (simp add: hf_total_def Math_round_def)
  have sp: "hf_span 8 = 4" by (simp add: hf_span_def Math_ceil_def)
  have nd: "1 < hf_span (hf_total 16 (hf_start 16 (Num 1)) (Num 8))" by (simp add: st tot sp)
  show ?thesis
    using hf_attenuation_effect [OF a nd, of "Num 8" 1 4] by (simp add: st tot)
qed

text \<open>
  Claim C9 at its failing input. On a fresh instance one press of the U-Shaping slope
  knob of the inputs, direction up, steps band 1 of input 1 from the default 12 to the
  table value 18: 18 is written into the slope field of the local store, sent, handed to
  \<open>_applyInputUShaping\<close> and published, with no clamp on the way. The U-Shaping set action
  asked for a slope of 18 on the same band of the same input sends and hands over 2, the
  upper bound of its clamp to \<open>[0.1, 2]\<close>. The outputs behave alike: their slope knob stores
  18, while the HF attenuation action writes 1 into the slope field of band 4.
\<close>

theorem slope_knob_stores_outside_bounds:
  "slope (band_at (inputUShaping (ushaping_knob_slope Input 0 None ''up'' fresh)) 1 1) = Some (Num 18)
   \<and> trace (ushaping_knob_slope Input 0 None ''up'' fresh) =
       [CmdSendLine (ushaping_path Input 1 1 ''slope'') (VNum (Num 18)),
        ApplyUShaping Input 1 1 ''slope'' (VNum (Num 18)),
        SetVariableValues [(ushaping_var Input 1 1 ''slope'', VRounded (Num 18))],
        LogMsg Info ''U-Shaping: slope'',
        UpdateUShapingCurrentValues Input]
   \<and> trace (input_ushaping_adjust 8 slope_18_opts fresh) =
       [CmdSendLine (ushaping_path Input 1 1 ''slope'') (VNum (Num 2)),
        ApplyUShaping Input 1 1 ''slope'' (VNum (Num 2)),
        LogMsg Info ''Input ch: U-Shaping band'']
   \<and> slope (band_at (outputUShaping (ushaping_knob_slope Output 0 None ''up'' fresh)) 1 1)
       = Some (Num 18)
   \<and> slope (band_at (outputUShaping (output_hf_attenuation 16 (Num 1) (Num 8) (Num 8) fresh)) 1 4)
       = Some (Num 1)"
  by (simp only: slope_knob_input_fresh slope_knob_output_fresh adjust_set_18_fresh hf_slope_fresh
      simp_thms)

end
